theory Spec2Isabelle
  imports Main
begin

text \<open>
  A shallow embedding of the request pipeline of the image-analysis proxy: the helpers of
  \<^verbatim>\<open>utils/validation\<close> and the two handlers of \<^verbatim>\<open>controllers/analyzeController\<close>,
  \<^verbatim>\<open>analyzeFromUrl\<close> and \<^verbatim>\<open>analyzeFromUpload\<close>. A handler is a function from the runtime and
  the request to the outbound calls it makes and the response it writes. What the spec
  calls \<^verbatim>\<open>validateUrlRequest\<close> and \<^verbatim>\<open>validateUploadRequest\<close> is the run of checks at the head
  of each handler.
\<close>

section \<open>JavaScript values\<close>

text \<open>
  The request handlers receive parsed JSON and multipart fields, so a body field can be
  any JSON value. Strings are lists of code units; the model covers the code units
  below 256, one \<^typ>\<open>char\<close> each. A number is kept as its decimal rendering
  (what \<^verbatim>\<open>String(n)\<close> gives): the handlers only test numbers for truthiness and print
  them. An object literal is a list of its own properties; where a key occurs twice the
  first occurrence counts.
\<close>

datatype js =
    JUndefined
  | JNull
  | JBool bool
  | JNum string
  | JStr string
  | JArr "js list"
  | JObj "(string \<times> js) list"

text \<open>\<^verbatim>\<open>!v\<close> is false exactly on the truthy values.\<close>

fun truthy :: "js \<Rightarrow> bool" where
  "truthy JUndefined = False"
| "truthy JNull = False"
| "truthy (JBool b) = b"
| "truthy (JNum r) = (r \<noteq> ''0'' \<and> r \<noteq> ''NaN'')"
| "truthy (JStr s) = (s \<noteq> [])"
| "truthy (JArr xs) = True"
| "truthy (JObj kvs) = True"

fun isArray :: "js \<Rightarrow> bool" where
  "isArray (JArr xs) = True"
| "isArray v = False"

text \<open>\<^verbatim>\<open>xs.join(sep)\<close> on strings.\<close>

fun join :: "string \<Rightarrow> string list \<Rightarrow> string" where
  "join sep [] = []"
| "join sep [x] = x"
| "join sep (x # y # ys) = x @ sep @ join sep (y # ys)"

fun those_list :: "'a option list \<Rightarrow> 'a list option" where
  "those_list [] = Some []"
| "those_list (None # xs) = None"
| "those_list (Some x # xs) =
     (case those_list xs of None \<Rightarrow> None | Some ys \<Rightarrow> Some (x # ys))"

text \<open>
  Conversion to a string, as \<^verbatim>\<open>String(v)\<close>, template literals and \<^verbatim>\<open>join\<close> apply it.
  \<open>None\<close> is a thrown TypeError: an object whose own property \<^verbatim>\<open>toString\<close> hides the
  inherited method cannot be converted (a JSON value is never callable, and the inherited
  \<^verbatim>\<open>valueOf\<close> returns the object itself). An array prints its elements joined by commas,
  \<^verbatim>\<open>null\<close> and \<^verbatim>\<open>undefined\<close> elements as the empty string.
\<close>

fun to_string :: "js \<Rightarrow> string option" where
  "to_string JUndefined = Some ''undefined''"
| "to_string JNull = Some ''null''"
| "to_string (JBool b) = Some (if b then ''true'' else ''false'')"
| "to_string (JNum r) = Some r"
| "to_string (JStr s) = Some s"
| "to_string (JArr xs) =
     map_option (join '','')
       (those_list (map (\<lambda>x. if x = JUndefined \<or> x = JNull then Some [] else to_string x) xs))"
| "to_string (JObj kvs) =
     (if ''toString'' \<in> set (map fst kvs) then None else Some ''[object Object]'')"

text \<open>\<^verbatim>\<open>xs.join(sep)\<close> on arbitrary elements; \<open>None\<close> when an element cannot be converted.\<close>

definition join_js :: "string \<Rightarrow> js list \<Rightarrow> string option" where
  "join_js sep xs =
     map_option (join sep)
       (those_list (map (\<lambda>x. if x = JUndefined \<or> x = JNull then Some [] else to_string x) xs))"

text \<open>
  Reading one of the properties \<^verbatim>\<open>error\<close>, \<^verbatim>\<open>code\<close>, \<^verbatim>\<open>message\<close> of a value. \<open>None\<close> is
  the TypeError of a read on \<^verbatim>\<open>null\<close> or \<^verbatim>\<open>undefined\<close>; primitives and arrays have no
  such property.
\<close>

fun js_prop :: "js \<Rightarrow> string \<Rightarrow> js option" where
  "js_prop JUndefined k = None"
| "js_prop JNull k = None"
| "js_prop (JObj kvs) k = Some (case map_of kvs k of None \<Rightarrow> JUndefined | Some v \<Rightarrow> v)"
| "js_prop v k = Some JUndefined"

text \<open>Optional chaining \<^verbatim>\<open>v?.k\<close>.\<close>

definition js_prop_opt :: "js \<Rightarrow> string \<Rightarrow> js" where
  "js_prop_opt v k = (case js_prop v k of None \<Rightarrow> JUndefined | Some w \<Rightarrow> w)"

text \<open>\<^verbatim>\<open>a || b\<close>.\<close>

definition js_or :: "js \<Rightarrow> js \<Rightarrow> js" where
  "js_or a b = (if truthy a then a else b)"

section \<open>Strings and regular expressions\<close>

text \<open>White space in the sense of \<^verbatim>\<open>trim\<close> and of the class \<^verbatim>\<open>\s\<close>.\<close>

definition is_ws :: "char \<Rightarrow> bool" where
  "is_ws c = (of_char c \<in> set [9, 10, 11, 12, 13, 32, 160 :: nat])"

definition trim :: "string \<Rightarrow> string" where
  "trim s = rev (dropWhile is_ws (rev (dropWhile is_ws s)))"

text \<open>The class \<^verbatim>\<open>\w\<close>.\<close>

definition is_word :: "char \<Rightarrow> bool" where
  "is_word c =
     (let n = (of_char c :: nat)
      in (65 \<le> n \<and> n \<le> 90) \<or> (97 \<le> n \<and> n \<le> 122) \<or> (48 \<le> n \<and> n \<le> 57) \<or> n = 95)"

text \<open>
  Under the flag \<^verbatim>\<open>i\<close> two code units match when they agree after upper-casing, and a
  code unit outside ASCII never matches an ASCII letter.
\<close>

definition upper :: "char \<Rightarrow> char" where
  "upper c =
     (let n = (of_char c :: nat) in if 97 \<le> n \<and> n \<le> 122 then char_of (n - 32) else c)"

definition ci :: "char \<Rightarrow> char \<Rightarrow> bool" where
  "ci a c = (upper c = upper a)"

text \<open>
  The fragment of the regular-expression language the source uses. A position is the
  code unit before it (none at the start of the input) together with the input that is
  left.
\<close>

datatype regex =
    Eps
  | Atom "char \<Rightarrow> bool"
  | WordBoundary
  | NotAhead regex
  | Seq regex regex
  | Star regex

type_synonym pos = "char option \<times> string"

definition word_before :: "char option \<Rightarrow> bool" where
  "word_before p = (case p of None \<Rightarrow> False | Some c \<Rightarrow> is_word c)"

definition word_at :: "string \<Rightarrow> bool" where
  "word_at s = (case s of [] \<Rightarrow> False | c # cs \<Rightarrow> is_word c)"

text \<open>
  \<open>matches r st\<close> lists the positions at which a match of \<open>r\<close> started at \<open>st\<close> can end,
  in the order in which a backtracking matcher tries them: a greedy star first iterates,
  and an iteration that consumes nothing is dropped. The head of the list is the match
  the engine reports.
\<close>

fun matches :: "regex \<Rightarrow> pos \<Rightarrow> pos list" where
  "matches Eps st = [st]"
| "matches (Atom P) (p, s) =
     (case s of [] \<Rightarrow> [] | c # cs \<Rightarrow> if P c then [(Some c, cs)] else [])"
| "matches WordBoundary (p, s) = (if word_before p \<noteq> word_at s then [(p, s)] else [])"
| "matches (NotAhead r) st = (if matches r st = [] then [st] else [])"
| "matches (Seq a b) st = concat (map (matches b) (matches a st))"
| "matches (Star r) st =
     concat (map (matches (Star r))
       (filter (\<lambda>st'. length (snd st') < length (snd st)) (matches r st))) @ [st]"

definition seqs :: "regex list \<Rightarrow> regex" where
  "seqs rs = foldr Seq rs Eps"

definition Str :: "string \<Rightarrow> regex" where
  "Str s = seqs (map (\<lambda>a. Atom (ci a)) s)"

definition Plus :: "regex \<Rightarrow> regex" where
  "Plus r = Seq r (Star r)"

text \<open>
  The first match at a position that consumes input. An empty match is replaced by the
  empty string like any other, which changes nothing, and the search moves on by one
  code unit.
\<close>

definition first_match :: "regex \<Rightarrow> pos \<Rightarrow> pos option" where
  "first_match r st =
     (case matches r st of
        [] \<Rightarrow> None
      | e # es \<Rightarrow> if length (snd e) < length (snd st) then Some e else None)"

text \<open>\<^verbatim>\<open>s.replace(/r/g, '')\<close>: scan from the left, delete each match, go on behind it.\<close>

function replace_all :: "regex \<Rightarrow> char option \<Rightarrow> string \<Rightarrow> string" where
  "replace_all r p s =
     (case first_match r (p, s) of
        Some (p', rest) \<Rightarrow> replace_all r p' rest
      | None \<Rightarrow> (case s of [] \<Rightarrow> [] | c # cs \<Rightarrow> c # replace_all r (Some c) cs))"
  by pat_completeness auto
termination
  by (relation "measure (\<lambda>(r, p, s). length s)")
     (auto simp: first_match_def split: list.splits if_splits)

declare replace_all.simps [simp del]

section \<open>utils/validation: \<^verbatim>\<open>sanitizeUrl\<close> and \<^verbatim>\<open>validateImageUrl\<close>\<close>

text \<open>\<^verbatim>\<open>/<script\b[^<]*(?:(?!<\/script>)<[^<]*)*<\/script>/gi\<close>\<close>

definition re_script :: regex where
  "re_script =
     seqs [Str ''<script'', WordBoundary, Star (Atom (\<lambda>c. c \<noteq> CHR ''<'')),
           Star (seqs [NotAhead (Str ''</script>''), Atom (ci CHR ''<''),
                       Star (Atom (\<lambda>c. c \<noteq> CHR ''<''))]),
           Str ''</script>'']"

text \<open>\<^verbatim>\<open>/javascript:/gi\<close>\<close>

definition re_javascript :: regex where
  "re_javascript = Str ''javascript:''"

text \<open>\<^verbatim>\<open>/on\w+\s*=/gi\<close>\<close>

definition re_handler :: regex where
  "re_handler = seqs [Str ''on'', Plus (Atom is_word), Star (Atom is_ws), Str ''='']"

definition sanitizeUrl :: "js \<Rightarrow> js" where
  "sanitizeUrl url =
     (case url of
        JStr s \<Rightarrow>
          JStr (replace_all re_handler None
                 (replace_all re_javascript None
                   (replace_all re_script None (trim s))))
      | _ \<Rightarrow> JStr [])"

text \<open>
  \<^verbatim>\<open>new URL(url)\<close> belongs to the runtime. The model takes it as a parameter: the
  \<^verbatim>\<open>protocol\<close> of the parsed URL, or \<open>None\<close> when the constructor throws. The constructor
  first converts its argument to a string; a failed conversion lands in the same
  \<^verbatim>\<open>catch\<close>. An object literal converts to \<^verbatim>\<open>[object Object]\<close> or not at all, and
  neither is an absolute URL.
\<close>

definition URL_protocol :: "(string \<Rightarrow> string option) \<Rightarrow> js \<Rightarrow> string option" where
  "URL_protocol new_URL v =
     (case v of
        JObj kvs \<Rightarrow> None
      | _ \<Rightarrow> (case to_string v of None \<Rightarrow> None | Some s \<Rightarrow> new_URL s))"

definition validateImageUrl :: "(string \<Rightarrow> string option) \<Rightarrow> js \<Rightarrow> bool" where
  "validateImageUrl new_URL url =
     (case URL_protocol new_URL url of
        None \<Rightarrow> False
      | Some protocol \<Rightarrow> if protocol \<notin> set [''http:'', ''https:''] then False else True)"

section \<open>controllers/analyzeController\<close>

subsection \<open>The outbound call, its results, the response\<close>

text \<open>
  The request sent to the analysis service: its body (the JSON object \<^verbatim>\<open>{url: ...}\<close> or the
  bytes of the file), its content type, the \<^verbatim>\<open>visualFeatures\<close> parameter, the timeout and the
  size limits. The subscription key and the constant parameters \<^verbatim>\<open>details\<close> and \<^verbatim>\<open>language\<close>
  are the same on every call and are left out.
\<close>

datatype payload = JsonUrl js | Binary string

record outbound =
  path :: string
  payload :: payload
  content_type :: string
  visualFeatures :: string
  timeout :: nat
  maxContentLength :: "nat option"
  maxBodyLength :: "nat option"

text \<open>
  What a \<^verbatim>\<open>catch\<close> clause of a handler can receive: an error of the HTTP client with a
  response (its status and parsed body), an error without response (its \<^verbatim>\<open>code\<close>,
  \<^verbatim>\<open>undefined\<close> when it has none), or a TypeError raised by the handler's own code.
\<close>

datatype js_error = HttpError nat js | CodedError js | TypeError

text \<open>The call resolves with the response body and the \<^verbatim>\<open>apim-request-id\<close> header.\<close>

datatype axios_result = Resolved js js | Rejected js_error

record runtime =
  new_URL :: "string \<Rightarrow> string option"
  JSON_parse :: "string \<Rightarrow> js option"
  axios_post :: "outbound \<Rightarrow> axios_result"
  now :: string

record metadata =
  requestId :: js
  timestamp :: string
  featuresUsed :: js
  filename :: "string option"
  fileSize :: "nat option"
  mimeType :: "string option"

text \<open>
  The JSON envelope on the wire. A failure carries \<^verbatim>\<open>error\<close>, \<^verbatim>\<open>details\<close> and \<^verbatim>\<open>code\<close>;
  a \<^verbatim>\<open>code\<close> that is \<^verbatim>\<open>undefined\<close> is not serialised.
\<close>

datatype envelope = Success js metadata | Failure string js js

record http_response =
  status :: nat
  body :: envelope

text \<open>A handler answers, or an exception leaves it and no response is written.\<close>

datatype outcome = Responded http_response | Unhandled

definition reject :: "nat \<Rightarrow> string \<Rightarrow> string \<Rightarrow> http_response" where
  "reject st e d = \<lparr>status = st, body = Failure e (JStr d) JUndefined\<rparr>"

definition defaultFeatures :: "string list" where
  "defaultFeatures = [''Description'', ''Tags'', ''Objects'', ''Color'']"

definition validFeatures :: "string list" where
  "validFeatures =
     [''Description'', ''Tags'', ''Objects'', ''Color'',
      ''ImageType'', ''Faces'', ''Adult'', ''Brands'', ''Categories'']"

text \<open>\<^verbatim>\<open>features.filter(f => !validFeatures.includes(f))\<close>\<close>

definition invalidFeatures :: "js list \<Rightarrow> js list" where
  "invalidFeatures fs = filter (\<lambda>f. f \<notin> set (map JStr validFeatures)) fs"

text \<open>
  The check of the feature names, shared by both handlers: the rejection, a TypeError
  when the template literal cannot print an offending element, or nothing.
\<close>

definition checkFeatureNames :: "js list \<Rightarrow> (js_error + http_response) option" where
  "checkFeatureNames fs =
     (if length (invalidFeatures fs) > 0 then
        (case join_js '', '' (invalidFeatures fs) of
           None \<Rightarrow> Some (Inl TypeError)
         | Some names \<Rightarrow>
             Some (Inr (reject 400 ''Invalid feature names''
               (''Invalid features: '' @ names @ ''. Valid features are: ''
                  @ join '', '' validFeatures))))
      else None)"

text \<open>
  \<^verbatim>\<open>url.length > n\<close>, which the handler asks of a truthy value that \<open>validateImageUrl\<close> has
  accepted. A string and an array have a length; a number or a boolean has none, and
  \<^verbatim>\<open>undefined > n\<close> is false. The remaining values never get here: \<^verbatim>\<open>null\<close> and \<^verbatim>\<open>undefined\<close>
  are not truthy, and \<open>validateImageUrl\<close> accepts no object.
\<close>

fun length_gt :: "js \<Rightarrow> nat \<Rightarrow> bool" where
  "length_gt (JStr s) n = (length s > n)"
| "length_gt (JArr xs) n = (length xs > n)"
| "length_gt v n = False"

subsection \<open>\<^verbatim>\<open>analyzeFromUrl\<close>\<close>

record url_request =
  url :: js
  features :: js

text \<open>
  The \<^verbatim>\<open>try\<close> block: the outbound calls made, and either the response written or the
  exception handed to \<^verbatim>\<open>catch\<close>.
\<close>

definition analyzeFromUrl_try ::
  "runtime \<Rightarrow> url_request \<Rightarrow> outbound list \<times> (js_error + http_response)" where
  "analyzeFromUrl_try rt req =
     (if \<not> truthy (url req) then
        ([], Inr (reject 400 ''Image URL is required''
                   ''Please provide a valid image URL in the request body''))
      else if \<not> validateImageUrl (new_URL rt) (url req) then
        ([], Inr (reject 400 ''Invalid URL format''
                   ''URL must start with http:// or https:// and point to a valid image''))
      else if length_gt (url req) 2048 then
        ([], Inr (reject 400 ''URL too long''
                   ''Image URL must be less than 2048 characters''))
      else
        let sanitizedUrl = sanitizeUrl (url req);
            checked =
              (if truthy (features req) then
                 (case features req of
                    JArr fs \<Rightarrow>
                      (case checkFeatureNames fs of
                         Some stop \<Rightarrow> Inl stop
                       | None \<Rightarrow> Inr fs)
                  | _ \<Rightarrow>
                      Inl (Inr (reject 400 ''Invalid features format''
                                 ''Features must be an array of strings'')))
               else Inr (map JStr defaultFeatures))
        in (case checked of
              Inl stop \<Rightarrow> ([], stop)
            | Inr visual_features \<Rightarrow>
                (case join_js '','' visual_features of
                   None \<Rightarrow> ([], Inl TypeError)
                 | Some joined \<Rightarrow>
                     let call = \<lparr>path = ''/vision/v3.2/analyze'',
                                 payload = JsonUrl sanitizedUrl,
                                 content_type = ''application/json'',
                                 visualFeatures = joined,
                                 timeout = 30000,
                                 maxContentLength = None,
                                 maxBodyLength = None\<rparr>
                     in (case axios_post rt call of
                           Rejected e \<Rightarrow> ([call], Inl e)
                         | Resolved response_data request_id \<Rightarrow>
                             ([call],
                              Inr \<lparr>status = 200,
                                   body = Success response_data
                                     \<lparr>requestId = request_id,
                                      timestamp = now rt,
                                      featuresUsed = JArr visual_features,
                                      filename = None,
                                      fileSize = None,
                                      mimeType = None\<rparr>\<rparr>)))))"

text \<open>The \<^verbatim>\<open>catch\<close> block.\<close>

definition error_code :: "js_error \<Rightarrow> js" where
  "error_code e = (case e of CodedError c \<Rightarrow> c | _ \<Rightarrow> JUndefined)"

definition analyzeFromUrl_catch :: "js_error \<Rightarrow> outcome" where
  "analyzeFromUrl_catch e =
     (case e of
        HttpError response_status response_data \<Rightarrow>
          (case js_prop response_data ''error'' of
             None \<Rightarrow> Unhandled
           | Some azureError \<Rightarrow>
               let code = js_prop_opt azureError ''code'';
                   (userMessage, details) =
                     (if code = JStr ''InvalidImageUrl'' then
                        (''Invalid or inaccessible image URL'',
                         JStr ''The image URL could not be accessed. Please ensure the URL is publicly accessible and points to a valid image file.'')
                      else if code = JStr ''InvalidImageFormat'' then
                        (''Unsupported image format'',
                         JStr ''Supported formats: JPEG, PNG, GIF, BMP. Please provide an image in one of these formats.'')
                      else if code = JStr ''InvalidImageSize'' then
                        (''Invalid image dimensions'',
                         JStr ''Image must be at least 50x50 pixels and no larger than 16,000x16,000 pixels.'')
                      else if code = JStr ''InvalidImage'' then
                        (''Invalid or corrupted image'',
                         JStr ''The image file appears to be corrupted or is not a valid image.'')
                      else if code = JStr ''BadArgument'' then
                        (''Invalid request parameters'',
                         js_or (js_prop_opt azureError ''message'')
                           (JStr ''One or more parameters in your request are invalid.''))
                      else if response_status = 429 then
                        (''Rate limit exceeded'',
                         JStr ''Too many requests. Free tier allows 20 requests per minute. Please wait before trying again.'')
                      else
                        (''Azure API error'',
                         js_or (js_prop_opt azureError ''message'')
                           (JStr ''An error occurred while processing your request.'')))
               in Responded \<lparr>status = response_status,
                               body = Failure userMessage details code\<rparr>)
      | _ \<Rightarrow>
          if error_code e = JStr ''ECONNABORTED'' then
            Responded (reject 504 ''Request timeout''
              ''The image analysis request took too long. Please try again with a smaller image.'')
          else if error_code e = JStr ''ENOTFOUND'' \<or> error_code e = JStr ''ECONNREFUSED'' then
            Responded (reject 503 ''Service unavailable''
              ''Unable to connect to Azure Computer Vision service. Please try again later.'')
          else
            Responded (reject 500 ''Failed to analyze image''
              ''An unexpected error occurred. Please try again later.''))"

definition analyzeFromUrl :: "runtime \<Rightarrow> url_request \<Rightarrow> outbound list \<times> outcome" where
  "analyzeFromUrl rt req =
     (case analyzeFromUrl_try rt req of
        (calls, Inr response) \<Rightarrow> (calls, Responded response)
      | (calls, Inl e) \<Rightarrow> (calls, analyzeFromUrl_catch e))"

subsection \<open>\<^verbatim>\<open>analyzeFromUpload\<close>\<close>

text \<open>\<^verbatim>\<open>req.file\<close> as the multipart middleware leaves it; \<open>size_bytes\<close> is its \<^verbatim>\<open>size\<close>.\<close>

record upload_file =
  originalname :: string
  size_bytes :: nat
  mimetype :: string
  buffer :: string

record upload_request =
  req_file :: "upload_file option"
  body_features :: js

definition validMimeTypes :: "string list" where
  "validMimeTypes = [''image/jpeg'', ''image/png'', ''image/gif'', ''image/bmp'', ''image/webp'']"

text \<open>\<^verbatim>\<open>s.split(d)\<close> for a one-character separator.\<close>

fun split_on :: "char \<Rightarrow> string \<Rightarrow> string list" where
  "split_on d [] = [[]]"
| "split_on d (c # cs) =
     (if c = d then [] # split_on d cs
      else (case split_on d cs of [] \<Rightarrow> [[c]] | w # ws \<Rightarrow> (c # w) # ws))"

text \<open>
  The inner \<^verbatim>\<open>try\<close>/\<^verbatim>\<open>catch\<close> of the feature field. \<^verbatim>\<open>JSON.parse\<close> belongs to the runtime
  and is a parameter (\<open>None\<close>: it throws); it converts its argument to a string first.
  When it throws, the fallback calls \<^verbatim>\<open>split\<close>, which only a string has: on any other
  value the fallback itself throws, out of the inner \<^verbatim>\<open>catch\<close>.
\<close>

definition parseFeatures ::
  "(string \<Rightarrow> js option) \<Rightarrow> js \<Rightarrow> (js_error + http_response) + js list" where
  "parseFeatures parse field =
     (case (case to_string field of None \<Rightarrow> None | Some text \<Rightarrow> parse text) of
        Some parsed \<Rightarrow>
          (case parsed of
             JArr fs \<Rightarrow> Inr fs
           | _ \<Rightarrow> Inl (Inr (reject 400 ''Invalid features format''
                              ''Features must be an array of strings'')))
      | None \<Rightarrow>
          (case field of
             JStr s \<Rightarrow> Inr (map (\<lambda>f. JStr (trim f)) (split_on CHR '','' s))
           | _ \<Rightarrow> Inl (Inl TypeError)))"

definition analyzeFromUpload_try ::
  "runtime \<Rightarrow> upload_request \<Rightarrow> outbound list \<times> (js_error + http_response)" where
  "analyzeFromUpload_try rt req =
     (case req_file req of
        None \<Rightarrow>
          ([], Inr (reject 400 ''No image file provided''
                     (''Please upload an image file using the '' @ [CHR 0x22] @ ''image''
                        @ [CHR 0x22] @ '' field name.'')))
      | Some f \<Rightarrow>
          if size_bytes f > 4 * 1024 * 1024 then
            ([], Inr (reject 413 ''File too large''
                       ''Image file must be less than 4MB. Please compress or resize your image.''))
          else if size_bytes f < 1024 then
            ([], Inr (reject 400 ''File too small''
                       ''Image file must be at least 1KB. The uploaded file appears to be invalid or corrupted.''))
          else if mimetype f \<notin> set validMimeTypes then
            ([], Inr (reject 415 ''Unsupported file type''
                       (''File type '' @ [CHR 0x22] @ mimetype f @ [CHR 0x22]
                          @ '' is not supported. Please upload a JPEG, PNG, GIF, BMP, or WEBP image.'')))
          else
            let checked =
              (if truthy (body_features req) then
                 (case parseFeatures (JSON_parse rt) (body_features req) of
                    Inl stop \<Rightarrow> Inl stop
                  | Inr fs \<Rightarrow>
                      (case checkFeatureNames fs of
                         Some stop \<Rightarrow> Inl stop
                       | None \<Rightarrow> Inr fs))
               else Inr (map JStr defaultFeatures))
            in (case checked of
                  Inl stop \<Rightarrow> ([], stop)
                | Inr feature_list \<Rightarrow>
                    (case join_js '','' feature_list of
                       None \<Rightarrow> ([], Inl TypeError)
                     | Some joined \<Rightarrow>
                         let call = \<lparr>path = ''/vision/v3.2/analyze'',
                                     payload = Binary (buffer f),
                                     content_type = ''application/octet-stream'',
                                     visualFeatures = joined,
                                     timeout = 30000,
                                     maxContentLength = Some (4 * 1024 * 1024),
                                     maxBodyLength = Some (4 * 1024 * 1024)\<rparr>
                         in (case axios_post rt call of
                               Rejected e \<Rightarrow> ([call], Inl e)
                             | Resolved response_data request_id \<Rightarrow>
                                 ([call],
                                  Inr \<lparr>status = 200,
                                       body = Success response_data
                                         \<lparr>requestId = request_id,
                                          timestamp = now rt,
                                          featuresUsed = JArr feature_list,
                                          filename = Some (originalname f),
                                          fileSize = Some (size_bytes f),
                                          mimeType = Some (mimetype f)\<rparr>\<rparr>)))))"

definition analyzeFromUpload_catch :: "js_error \<Rightarrow> outcome" where
  "analyzeFromUpload_catch e =
     (case e of
        HttpError response_status response_data \<Rightarrow>
          (case js_prop response_data ''error'' of
             None \<Rightarrow> Unhandled
           | Some azureError \<Rightarrow>
               let code = js_prop_opt azureError ''code'';
                   (userMessage, details) =
                     (if code = JStr ''InvalidImageFormat'' then
                        (''Unsupported image format'',
                         JStr ''The uploaded file is not a valid image or is corrupted. Supported formats: JPEG, PNG, GIF, BMP.'')
                      else if code = JStr ''InvalidImageSize'' then
                        (''Invalid image dimensions'',
                         JStr ''Image must be at least 50x50 pixels and no larger than 16,000x16,000 pixels.'')
                      else if code = JStr ''InvalidImage'' then
                        (''Invalid or corrupted image'',
                         JStr ''The uploaded file appears to be corrupted or is not a valid image.'')
                      else if response_status = 429 then
                        (''Rate limit exceeded'',
                         JStr ''Too many requests. Please wait before trying again.'')
                      else
                        (''Azure API error'',
                         js_or (js_prop_opt azureError ''message'')
                           (JStr ''An error occurred while processing your image.'')))
               in Responded \<lparr>status = response_status,
                               body = Failure userMessage details code\<rparr>)
      | _ \<Rightarrow>
          if error_code e = JStr ''ECONNABORTED'' then
            Responded (reject 504 ''Request timeout''
              ''Image processing took too long. Please try with a smaller image.'')
          else
            Responded (reject 500 ''Failed to analyze uploaded image''
              ''An unexpected error occurred during image analysis.''))"

definition analyzeFromUpload :: "runtime \<Rightarrow> upload_request \<Rightarrow> outbound list \<times> outcome" where
  "analyzeFromUpload rt req =
     (case analyzeFromUpload_try rt req of
        (calls, Inr response) \<Rightarrow> (calls, Responded response)
      | (calls, Inl e) \<Rightarrow> (calls, analyzeFromUpload_catch e))"

subsection \<open>Reading an outcome\<close>

definition outcome_status :: "outcome \<Rightarrow> nat option" where
  "outcome_status out = (case out of Responded r \<Rightarrow> Some (status r) | Unhandled \<Rightarrow> None)"

definition outcome_error :: "outcome \<Rightarrow> string option" where
  "outcome_error out =
     (case out of
        Responded r \<Rightarrow> (case body r of Failure e d c \<Rightarrow> Some e | Success d m \<Rightarrow> None)
      | Unhandled \<Rightarrow> None)"

definition outcome_details :: "outcome \<Rightarrow> js option" where
  "outcome_details out =
     (case out of
        Responded r \<Rightarrow> (case body r of Failure e d c \<Rightarrow> Some d | Success d m \<Rightarrow> None)
      | Unhandled \<Rightarrow> None)"

text \<open>The \<^verbatim>\<open>success\<close> field of the envelope an outcome carries.\<close>

definition outcome_success :: "outcome \<Rightarrow> bool option" where
  "outcome_success out =
     (case out of
        Responded r \<Rightarrow> (case body r of Failure e d c \<Rightarrow> Some False | Success d m \<Rightarrow> Some True)
      | Unhandled \<Rightarrow> None)"

section \<open>A runtime to run the handlers on\<close>

text \<open>
  Stand-ins for the two parsers of the runtime, used to evaluate the handlers on concrete
  requests. \<open>scheme_protocol\<close> reads the scheme of a URL as the scheme state of the URL
  Standard does (surrounding control characters and spaces stripped, tabs and newlines
  removed, a letter followed by letters, digits, \<^verbatim>\<open>+\<close>, \<^verbatim>\<open>-\<close>, \<^verbatim>\<open>.\<close> up to a colon, lower-cased)
  and accepts whatever follows the colon.
\<close>

definition is_alpha :: "char \<Rightarrow> bool" where
  "is_alpha c =
     (let n = (of_char c :: nat) in (65 \<le> n \<and> n \<le> 90) \<or> (97 \<le> n \<and> n \<le> 122))"

definition is_scheme_char :: "char \<Rightarrow> bool" where
  "is_scheme_char c =
     (let n = (of_char c :: nat)
      in is_alpha c \<or> (48 \<le> n \<and> n \<le> 57) \<or> n = 43 \<or> n = 45 \<or> n = 46)"

definition lower :: "char \<Rightarrow> char" where
  "lower c =
     (let n = (of_char c :: nat) in if 65 \<le> n \<and> n \<le> 90 then char_of (n + 32) else c)"

definition is_c0_or_space :: "char \<Rightarrow> bool" where
  "is_c0_or_space c = ((of_char c :: nat) \<le> 32)"

definition scheme_protocol :: "string \<Rightarrow> string option" where
  "scheme_protocol s =
     (let stripped = rev (dropWhile is_c0_or_space (rev (dropWhile is_c0_or_space s)));
          input = filter (\<lambda>c. of_char c \<notin> set [9, 10, 13 :: nat]) stripped
      in case input of
           [] \<Rightarrow> None
         | c # cs \<Rightarrow>
             if is_alpha c then
               (case dropWhile is_scheme_char input of
                  [] \<Rightarrow> None
                | d # ds \<Rightarrow>
                    if d = CHR '':'' then Some (map lower (takeWhile is_scheme_char input) @ '':'')
                    else None)
             else None)"

text \<open>
  \<open>string_array_parse\<close> reads a JSON array of strings that hold no comma, quote, backslash
  or control character, and rejects every other text; among them are the texts that are
  no JSON at all, such as a comma-separated list of names.
\<close>

definition json_ws :: "char \<Rightarrow> bool" where
  "json_ws c = (of_char c \<in> set [9, 10, 13, 32 :: nat])"

definition json_trim :: "string \<Rightarrow> string" where
  "json_trim s = rev (dropWhile json_ws (rev (dropWhile json_ws s)))"

definition unquote :: "string \<Rightarrow> string option" where
  "unquote s =
     (case s of
        [] \<Rightarrow> None
      | q # rest \<Rightarrow>
          if q = CHR 0x22 \<and> rest \<noteq> [] \<and> last rest = CHR 0x22
             \<and> list_all (\<lambda>c. c \<noteq> CHR 0x22 \<and> c \<noteq> CHR 0x5C \<and> (of_char c :: nat) \<ge> 32)
                  (butlast rest)
          then Some (butlast rest) else None)"

definition string_array_parse :: "string \<Rightarrow> js option" where
  "string_array_parse s =
     (case json_trim s of
        [] \<Rightarrow> None
      | c # cs \<Rightarrow>
          if c = CHR ''['' \<and> cs \<noteq> [] \<and> last cs = CHR '']'' then
            (if json_trim (butlast cs) = [] then Some (JArr [])
             else map_option (\<lambda>names. JArr (map JStr names))
                    (those_list (map (\<lambda>part. unquote (json_trim part))
                                   (split_on CHR '','' (json_trim (butlast cs))))))
          else None)"

text \<open>A runtime whose outbound call always ends in the given result.\<close>

definition runtime_with :: "axios_result \<Rightarrow> runtime" where
  "runtime_with result =
     \<lparr>new_URL = scheme_protocol,
      JSON_parse = string_array_parse,
      axios_post = (\<lambda>call. result),
      now = ''2024-01-01T00:00:00.000Z''\<rparr>"

definition sample_file :: "nat \<Rightarrow> string \<Rightarrow> upload_file" where
  "sample_file n mime =
     \<lparr>originalname = ''cat.jpg'', size_bytes = n, mimetype = mime, buffer = []\<rparr>"

definition sample_url :: string where
  "sample_url = ''https://example.com/cat.jpg''"

definition sample_ok :: axios_result where
  "sample_ok = Resolved (JObj [(''description'', JObj [])]) (JStr ''req-1'')"

section \<open>Predicates the properties are stated with\<close>

text \<open>Whether a pattern matches somewhere in a string, the way the global search looks for it.\<close>

fun has_match :: "regex \<Rightarrow> char option \<Rightarrow> string \<Rightarrow> bool" where
  "has_match r p [] = (case first_match r (p, []) of None \<Rightarrow> False | Some e \<Rightarrow> True)"
| "has_match r p (c # cs) =
     (case first_match r (p, c # cs) of None \<Rightarrow> has_match r (Some c) cs | Some e \<Rightarrow> True)"

text \<open>
  A string \<open>sanitizeUrl\<close> has nothing to do on: no white space at its ends and no match of
  any of the three patterns.
\<close>

definition settled :: "string \<Rightarrow> bool" where
  "settled t =
     (trim t = t \<and> \<not> has_match re_script None t \<and> \<not> has_match re_javascript None t
      \<and> \<not> has_match re_handler None t)"

text \<open>The outbound call of \<open>analyzeFromUrl\<close> for a URL value and a joined feature list.\<close>

definition url_call :: "js \<Rightarrow> string \<Rightarrow> outbound" where
  "url_call u joined =
     \<lparr>path = ''/vision/v3.2/analyze'', payload = JsonUrl (sanitizeUrl u),
      content_type = ''application/json'', visualFeatures = joined, timeout = 30000,
      maxContentLength = None,
      maxBodyLength = None\<rparr>"

text \<open>The outbound call of \<open>analyzeFromUpload\<close> for a file and a joined feature list.\<close>

definition upload_call :: "upload_file \<Rightarrow> string \<Rightarrow> outbound" where
  "upload_call f joined =
     \<lparr>path = ''/vision/v3.2/analyze'', payload = Binary (buffer f),
      content_type = ''application/octet-stream'', visualFeatures = joined, timeout = 30000,
      maxContentLength = Some (4 * 1024 * 1024),
      maxBodyLength = Some (4 * 1024 * 1024)\<rparr>"

text \<open>The file passes the checks of its size and type.\<close>

definition file_ok :: "upload_file \<Rightarrow> bool" where
  "file_ok f =
     (1024 \<le> size_bytes f \<and> size_bytes f \<le> 4 * 1024 * 1024 \<and> mimetype f \<in> set validMimeTypes)"


section \<open>Properties of \<open>sanitizeUrl\<close>\<close>

lemma first_match_shorter: "first_match r (p, s) = Some (p', rest) \<Longrightarrow> length rest < length s"
  by (auto simp: first_match_def split: list.splits if_splits)

lemma first_match_empty: "first_match r (p, []) = None"
  by (auto simp: first_match_def split: list.splits)

text \<open>Where nothing matches, the replacement returns its input.\<close>

lemma replace_all_no_match: "\<not> has_match r p s \<Longrightarrow> replace_all r p s = s"
proof (induction s arbitrary: p)
  case Nil
  show ?case by (subst replace_all.simps) (simp add: first_match_empty)
next
  case (Cons c cs)
  from Cons.prems have none: "first_match r (p, c # cs) = None"
    by (cases "first_match r (p, c # cs)") auto
  with Cons.prems have rest: "\<not> has_match r (Some c) cs" by simp
  show ?case
    by (subst replace_all.simps) (simp add: none Cons.IH [OF rest])
qed

text \<open>The replacement never lengthens a string, and shortens it where something matches.\<close>

lemma replace_all_length: "length (replace_all r p s) \<le> length s"
proof (induction r p s rule: replace_all.induct)
  case (1 r p s)
  show ?case
  proof (cases "first_match r (p, s)")
    case None
    show ?thesis
    proof (cases s)
      case Nil
      then show ?thesis by (subst replace_all.simps) (simp add: first_match_empty)
    next
      case (Cons c cs)
      with None "1.IH"(1) [OF None Cons] show ?thesis
        by (subst replace_all.simps) simp
    qed
  next
    case (Some e)
    obtain p' rest where e: "e = (p', rest)" by (cases e)
    from Some e have "length rest < length s"
      using first_match_shorter [of r p s p' rest] by simp
    moreover from "1.IH"(2) [OF Some e [symmetric]]
    have "length (replace_all r p' rest) \<le> length rest" .
    ultimately show ?thesis using Some e
      by (subst replace_all.simps) simp
  qed
qed

lemma replace_all_match_shorter: "has_match r p s \<Longrightarrow> length (replace_all r p s) < length s"
proof (induction s arbitrary: p)
  case Nil
  then show ?case by (simp add: first_match_empty)
next
  case (Cons c cs)
  show ?case
  proof (cases "first_match r (p, c # cs)")
    case None
    with Cons.prems have "has_match r (Some c) cs" by simp
    from Cons.IH [OF this] None show ?thesis
      by (subst replace_all.simps) simp
  next
    case (Some e)
    obtain p' rest where e: "e = (p', rest)" by (cases e)
    from Some e have "length rest < length (c # cs)"
      using first_match_shorter [of r p "c # cs" p' rest] by simp
    moreover have "length (replace_all r p' rest) \<le> length rest" by (rule replace_all_length)
    ultimately show ?thesis using Some e
      by (subst replace_all.simps) simp
  qed
qed

lemma dropWhile_same_length:
  assumes "length (dropWhile P xs) = length xs"
  shows "dropWhile P xs = xs"
proof -
  have "length (takeWhile P xs) + length (dropWhile P xs) = length xs"
    by (metis length_append takeWhile_dropWhile_id)
  with assms have "takeWhile P xs = []" by simp
  then show ?thesis by (metis append_Nil takeWhile_dropWhile_id)
qed

lemma trim_length: "length (trim s) \<le> length s"
proof -
  have "length (trim s) \<le> length (dropWhile is_ws s)"
    unfolding trim_def using length_dropWhile_le [of is_ws "rev (dropWhile is_ws s)"] by simp
  also have "\<dots> \<le> length s" by (rule length_dropWhile_le)
  finally show ?thesis .
qed

lemma trim_same_length: "length (trim s) = length s \<Longrightarrow> trim s = s"
proof -
  assume eq: "length (trim s) = length s"
  have a: "length (trim s) \<le> length (dropWhile is_ws s)"
    unfolding trim_def using length_dropWhile_le [of is_ws "rev (dropWhile is_ws s)"] by simp
  have b: "length (dropWhile is_ws s) \<le> length s" by (rule length_dropWhile_le)
  from eq a b have "length (dropWhile is_ws s) = length s" by simp
  then have d: "dropWhile is_ws s = s" by (rule dropWhile_same_length)
  from eq d have "length (dropWhile is_ws (rev s)) = length (rev s)" by (simp add: trim_def)
  then have "dropWhile is_ws (rev s) = rev s" by (rule dropWhile_same_length)
  with d show ?thesis by (simp add: trim_def)
qed

text \<open>The fixed points of \<open>sanitizeUrl\<close> are exactly the settled strings.\<close>

lemma sanitizeUrl_fixed_iff: "sanitizeUrl (JStr t) = JStr t \<longleftrightarrow> settled t"
proof
  assume "settled t"
  then show "sanitizeUrl (JStr t) = JStr t"
    by (simp add: sanitizeUrl_def settled_def replace_all_no_match)
next
  assume fixed: "sanitizeUrl (JStr t) = JStr t"
  define a where "a = trim t"
  define b where "b = replace_all re_script None a"
  define c where "c = replace_all re_javascript None b"
  from fixed have t: "replace_all re_handler None c = t"
    by (simp add: sanitizeUrl_def a_def b_def c_def)
  have l1: "length t \<le> length c" using replace_all_length [of re_handler None c] t by simp
  have l2: "length c \<le> length b" unfolding c_def by (rule replace_all_length)
  have l3: "length b \<le> length a" unfolding b_def by (rule replace_all_length)
  have l4: "length a \<le> length t" unfolding a_def by (rule trim_length)
  from l1 l2 l3 l4 have "length a = length t" by simp
  then have at: "a = t" unfolding a_def by (rule trim_same_length)
  have nb: "\<not> has_match re_script None a"
    using replace_all_match_shorter [of re_script None a] l1 l2 l3 l4 by (auto simp: b_def)
  then have ba: "b = a" unfolding b_def by (rule replace_all_no_match)
  have nc: "\<not> has_match re_javascript None b"
    using replace_all_match_shorter [of re_javascript None b] l1 l2 l3 l4 ba by (auto simp: c_def)
  then have cb: "c = b" unfolding c_def by (rule replace_all_no_match)
  have nd: "\<not> has_match re_handler None c"
    using replace_all_match_shorter [of re_handler None c] t l1 l2 l3 l4 ba cb by auto
  from at ba cb nb nc nd show "settled t"
    by (simp add: settled_def a_def)
qed

section \<open>Properties of the handlers\<close>

subsection \<open>Feature names\<close>

lemma those_list_Some: "those_list (map Some xs) = Some xs"
  by (induction xs) simp_all

lemma join_js_strs: "join_js sep (map JStr xs) = Some (join sep xs)"
proof -
  have "those_list (map (\<lambda>x. if x = JUndefined \<or> x = JNull then Some [] else to_string x)
          (map JStr xs)) = Some xs"
    by (induction xs) simp_all
  then show ?thesis unfolding join_js_def by simp
qed

lemma invalidFeatures_strs:
  "invalidFeatures (map JStr tags) = map JStr (filter (\<lambda>t. t \<notin> set validFeatures) tags)"
  by (induction tags) (auto simp: invalidFeatures_def)

lemma checkFeatureNames_strs:
  "checkFeatureNames (map JStr tags) =
     (if filter (\<lambda>t. t \<notin> set validFeatures) tags = [] then None
      else Some (Inr (reject 400 ''Invalid feature names''
             (''Invalid features: '' @ join '', '' (filter (\<lambda>t. t \<notin> set validFeatures) tags)
                @ ''. Valid features are: '' @ join '', '' validFeatures))))"
  by (simp add: checkFeatureNames_def invalidFeatures_strs join_js_strs)

lemma checkFeatureNames_None: "checkFeatureNames fs = None \<longleftrightarrow> invalidFeatures fs = []"
  by (auto simp: checkFeatureNames_def split: option.splits)

lemma checkFeatureNames_stop:
  "checkFeatureNames fs = Some stop \<Longrightarrow>
     stop = Inl TypeError \<or> (\<exists>d. stop = Inr (reject 400 ''Invalid feature names'' d))"
  by (auto simp: checkFeatureNames_def split: option.splits if_splits)

lemma url_rejected_early:
  assumes "\<not> truthy (url req) \<or> \<not> validateImageUrl (new_URL rt) (url req) \<or> length_gt (url req) 2048"
  shows "\<exists>e d. analyzeFromUrl_try rt req = ([], Inr (reject 400 e d))"
  using assms unfolding analyzeFromUrl_try_def by auto

lemma url_checks_passed:
  assumes "truthy (url req)" and "validateImageUrl (new_URL rt) (url req)" and "\<not> length_gt (url req) 2048"
  shows "analyzeFromUrl_try rt req =
     (let sanitizedUrl = sanitizeUrl (url req);
            checked =
              (if truthy (features req) then
                 (case features req of
                    JArr fs \<Rightarrow>
                      (case checkFeatureNames fs of
                         Some stop \<Rightarrow> Inl stop
                       | None \<Rightarrow> Inr fs)
                  | _ \<Rightarrow>
                      Inl (Inr (reject 400 ''Invalid features format''
                                 ''Features must be an array of strings'')))
               else Inr (map JStr defaultFeatures))
        in (case checked of
              Inl stop \<Rightarrow> ([], stop)
            | Inr visual_features \<Rightarrow>
                (case join_js '','' visual_features of
                   None \<Rightarrow> ([], Inl TypeError)
                 | Some joined \<Rightarrow>
                     let call = \<lparr>path = ''/vision/v3.2/analyze'',
                                 payload = JsonUrl sanitizedUrl,
                                 content_type = ''application/json'',
                                 visualFeatures = joined,
                                 timeout = 30000,
                                 maxContentLength = None,
                                 maxBodyLength = None\<rparr>
                     in (case axios_post rt call of
                           Rejected e \<Rightarrow> ([call], Inl e)
                         | Resolved response_data request_id \<Rightarrow>
                             ([call],
                              Inr \<lparr>status = 200,
                                   body = Success response_data
                                     \<lparr>requestId = request_id,
                                      timestamp = now rt,
                                      featuresUsed = JArr visual_features,
                                      filename = None,
                                      fileSize = None,
                                      mimeType = None\<rparr>\<rparr>)))))"
  using assms unfolding analyzeFromUrl_try_def by simp

lemma url_forwarded:
  assumes "truthy (url req)" and "validateImageUrl (new_URL rt) (url req)" and "\<not> length_gt (url req) 2048"
    and "features req = JArr (map JStr names) \<and> set names \<subseteq> set validFeatures \<and> fs = map JStr names
         \<or> \<not> truthy (features req) \<and> fs = map JStr defaultFeatures \<and> names = defaultFeatures"
  shows "analyzeFromUrl rt req =
     ([url_call (url req) (join '','' names)],
      case axios_post rt (url_call (url req) (join '','' names)) of
        Rejected e \<Rightarrow> analyzeFromUrl_catch e
      | Resolved response_data request_id \<Rightarrow>
          Responded \<lparr>status = 200,
             body = Success response_data
               \<lparr>requestId = request_id, timestamp = now rt, featuresUsed = JArr fs,
                filename = None, fileSize = None, mimeType = None\<rparr>\<rparr>)"
proof -
  from assms(4) have inv: "truthy (features req) \<Longrightarrow> checkFeatureNames (map JStr names) = None"
    by (auto simp: checkFeatureNames_strs filter_empty_conv)
  from assms(4) show ?thesis
    unfolding analyzeFromUrl_def url_checks_passed [OF assms(1-3)] url_call_def
    by (auto simp: inv join_js_strs Let_def split: axios_result.splits)
qed

subsection \<open>The sample request\<close>

lemma sample_url_valid: "validateImageUrl scheme_protocol (JStr sample_url)"
  by code_simp

lemma sample_url_nonempty: "sample_url \<noteq> []"
  by (simp add: sample_url_def)

lemma sample_url_short: "\<not> 2048 < length sample_url"
  by (simp add: sample_url_def)

lemmas sample_url_passes = sample_url_valid sample_url_nonempty sample_url_short

text \<open>The sample request with the default features, against a call that is rejected.\<close>

lemma sample_url_rejected:
  "analyzeFromUrl (runtime_with (Rejected e)) \<lparr>url = JStr sample_url, features = JUndefined\<rparr> =
     ([url_call (JStr sample_url) ''Description,Tags,Objects,Color''], analyzeFromUrl_catch e)"
proof -
  let ?req = "\<lparr>url = JStr sample_url, features = JUndefined\<rparr>"
  have "analyzeFromUrl (runtime_with (Rejected e)) ?req =
     ([url_call (url ?req) (join '','' defaultFeatures)],
      case axios_post (runtime_with (Rejected e)) (url_call (url ?req) (join '','' defaultFeatures)) of
        Rejected e \<Rightarrow> analyzeFromUrl_catch e
      | Resolved response_data request_id \<Rightarrow>
          Responded \<lparr>status = 200,
             body = Success response_data
               \<lparr>requestId = request_id, timestamp = now (runtime_with (Rejected e)),
                featuresUsed = JArr (map JStr defaultFeatures),
                filename = None, fileSize = None, mimeType = None\<rparr>\<rparr>)"
    by (rule url_forwarded) (simp_all add: sample_url_passes runtime_with_def)
  then show ?thesis by (simp add: runtime_with_def defaultFeatures_def)
qed

subsection \<open>Errors of the upstream service\<close>

text \<open>
  C1 (counterexample). The upstream answers 429 with the recognised code InvalidImage:
  the message is the one of the code, not the rate-limit one.
\<close>

theorem rate_limit_overridden_by_code:
  "outcome_status (snd (analyzeFromUrl
      (runtime_with (Rejected (HttpError 429
         (JObj [(''error'', JObj [(''code'', JStr ''InvalidImage'')])]))))
      \<lparr>url = JStr sample_url, features = JUndefined\<rparr>))
   = Some 429
   \<and> outcome_error (snd (analyzeFromUrl
      (runtime_with (Rejected (HttpError 429
         (JObj [(''error'', JObj [(''code'', JStr ''InvalidImage'')])]))))
      \<lparr>url = JStr sample_url, features = JUndefined\<rparr>))
   = Some ''Invalid or corrupted image''
   \<and> outcome_error (snd (analyzeFromUrl
      (runtime_with (Rejected (HttpError 429
         (JObj [(''error'', JObj [(''code'', JStr ''InvalidImage'')])]))))
      \<lparr>url = JStr sample_url, features = JUndefined\<rparr>))
   \<noteq> Some ''Rate limit exceeded''"
  by (simp add: sample_url_rejected analyzeFromUrl_catch_def js_prop_opt_def outcome_error_def
      outcome_status_def)

text \<open>
  C1 (amended). An upstream response with status 429 and a body that is not null is
  answered with status 429 in both modes. A code that the handler's switch recognises
  keeps its own message, and every other code gets the rate-limit message; the switch of
  \<open>analyzeFromUpload\<close> recognises three of the five codes of \<open>analyzeFromUrl\<close>.
\<close>

theorem message_at_429:
  assumes "js_prop response_data ''error'' = Some azureError"
  shows
    "outcome_status (analyzeFromUrl_catch (HttpError 429 response_data)) = Some 429
     \<and> outcome_status (analyzeFromUpload_catch (HttpError 429 response_data)) = Some 429
     \<and> outcome_error (analyzeFromUrl_catch (HttpError 429 response_data)) =
         Some (if js_prop_opt azureError ''code'' = JStr ''InvalidImageUrl''
                 then ''Invalid or inaccessible image URL''
               else if js_prop_opt azureError ''code'' = JStr ''InvalidImageFormat''
                 then ''Unsupported image format''
               else if js_prop_opt azureError ''code'' = JStr ''InvalidImageSize''
                 then ''Invalid image dimensions''
               else if js_prop_opt azureError ''code'' = JStr ''InvalidImage''
                 then ''Invalid or corrupted image''
               else if js_prop_opt azureError ''code'' = JStr ''BadArgument''
                 then ''Invalid request parameters''
               else ''Rate limit exceeded'')
     \<and> outcome_error (analyzeFromUpload_catch (HttpError 429 response_data)) =
         Some (if js_prop_opt azureError ''code'' = JStr ''InvalidImageFormat''
                 then ''Unsupported image format''
               else if js_prop_opt azureError ''code'' = JStr ''InvalidImageSize''
                 then ''Invalid image dimensions''
               else if js_prop_opt azureError ''code'' = JStr ''InvalidImage''
                 then ''Invalid or corrupted image''
               else ''Rate limit exceeded'')"
  using assms
  by (simp add: analyzeFromUrl_catch_def analyzeFromUpload_catch_def outcome_status_def
      outcome_error_def Let_def)

theorem message_at_429_witness:
  "outcome_status (analyzeFromUrl_catch (HttpError 429
      (JObj [(''error'', JObj [(''code'', JStr ''429''), (''message'', JStr ''Too Many Requests'')])])))
     = Some 429
   \<and> outcome_error (analyzeFromUrl_catch (HttpError 429
      (JObj [(''error'', JObj [(''code'', JStr ''429''), (''message'', JStr ''Too Many Requests'')])])))
     = Some ''Rate limit exceeded''
   \<and> outcome_error (analyzeFromUpload_catch (HttpError 429
      (JObj [(''error'', JObj [(''code'', JStr ''429''), (''message'', JStr ''Too Many Requests'')])])))
     = Some ''Rate limit exceeded''
   \<and> outcome_error (analyzeFromUrl_catch (HttpError 429
      (JObj [(''error'', JObj [(''code'', JStr ''BadArgument'')])])))
     = Some ''Invalid request parameters''
   \<and> outcome_error (analyzeFromUpload_catch (HttpError 429
      (JObj [(''error'', JObj [(''code'', JStr ''BadArgument'')])])))
     = Some ''Rate limit exceeded''
   \<and> outcome_error (analyzeFromUpload_catch (HttpError 429
      (JObj [(''error'', JObj [(''code'', JStr ''InvalidImage'')])])))
     = Some ''Invalid or corrupted image''
   \<and> outcome_status (analyzeFromUpload_catch (HttpError 429
      (JObj [(''error'', JObj [(''code'', JStr ''InvalidImage'')])])))
     = Some 429"
  using message_at_429
    [of "JObj [(''error'', JObj [(''code'', JStr ''429''), (''message'', JStr ''Too Many Requests'')])]"
        "JObj [(''code'', JStr ''429''), (''message'', JStr ''Too Many Requests'')]"]
    message_at_429
    [of "JObj [(''error'', JObj [(''code'', JStr ''BadArgument'')])]"
        "JObj [(''code'', JStr ''BadArgument'')]"]
    message_at_429
    [of "JObj [(''error'', JObj [(''code'', JStr ''InvalidImage'')])]"
        "JObj [(''code'', JStr ''InvalidImage'')]"]
  by (simp add: js_prop_opt_def)

subsection \<open>Sanitizing twice, sanitizing other values\<close>

text \<open>An address that passes the validation and holds the nested fragment.\<close>

lemma bypass_url_valid:
  "validateImageUrl scheme_protocol (JStr ''https://example.com/javajavascript:script:'')"
  by code_simp

lemma bypass_url_sanitized:
  "sanitizeUrl (JStr ''https://example.com/javajavascript:script:'')
     = JStr ''https://example.com/javascript:''"
  by code_simp

text \<open>
  C4 (the code at the failing input). On \<^verbatim>\<open>javajavascript:script:\<close> one pass removes the
  inner \<^verbatim>\<open>javascript:\<close> and joins the pieces around it into a new one, which only a second
  pass removes: the result of \<open>sanitizeUrl\<close> is not a fixed point, and it still holds the
  fragment the function strips. The handler forwards such a result.
\<close>

theorem sanitizeUrl_leaves_javascript:
  "sanitizeUrl (JStr ''javajavascript:script:'') = JStr ''javascript:''
   \<and> sanitizeUrl (sanitizeUrl (JStr ''javajavascript:script:'')) = JStr []
   \<and> sanitizeUrl (sanitizeUrl (JStr ''javajavascript:script:''))
       \<noteq> sanitizeUrl (JStr ''javajavascript:script:'')
   \<and> has_match re_javascript None ''javascript:''
   \<and> map payload (fst (analyzeFromUrl (runtime_with sample_ok)
         \<lparr>url = JStr ''https://example.com/javajavascript:script:'', features = JUndefined\<rparr>))
       = [JsonUrl (JStr ''https://example.com/javascript:'')]"
proof -
  let ?u = "JStr ''https://example.com/javajavascript:script:''"
  let ?req = "\<lparr>url = ?u, features = JUndefined\<rparr>"
  have a: "sanitizeUrl (JStr ''javajavascript:script:'') = JStr ''javascript:''
   \<and> sanitizeUrl (sanitizeUrl (JStr ''javajavascript:script:'')) = JStr []
   \<and> sanitizeUrl (sanitizeUrl (JStr ''javajavascript:script:''))
       \<noteq> sanitizeUrl (JStr ''javajavascript:script:'')
   \<and> has_match re_javascript None ''javascript:''"
    by code_simp
  have "fst (analyzeFromUrl (runtime_with sample_ok) ?req) =
     fst ([url_call (url ?req) (join '','' defaultFeatures)],
      case axios_post (runtime_with sample_ok) (url_call (url ?req) (join '','' defaultFeatures)) of
        Rejected e \<Rightarrow> analyzeFromUrl_catch e
      | Resolved response_data request_id \<Rightarrow>
          Responded \<lparr>status = 200,
             body = Success response_data
               \<lparr>requestId = request_id, timestamp = now (runtime_with sample_ok),
                featuresUsed = JArr (map JStr defaultFeatures),
                filename = None, fileSize = None, mimeType = None\<rparr>\<rparr>)"
    by (rule arg_cong [where f = fst], rule url_forwarded)
       (simp_all add: bypass_url_valid runtime_with_def)
  then have "map payload (fst (analyzeFromUrl (runtime_with sample_ok) ?req))
      = [JsonUrl (JStr ''https://example.com/javascript:'')]"
    by (simp add: url_call_def bypass_url_sanitized)
  with a show ?thesis by blast
qed

text \<open>
  C10. On every value that is not a string \<open>sanitizeUrl\<close> returns the empty string, and on
  every value it returns a string.
\<close>

theorem sanitizeUrl_non_string:
  "((\<forall>s. v \<noteq> JStr s) \<longrightarrow> sanitizeUrl v = JStr []) \<and> (\<exists>s. sanitizeUrl v = JStr s)"
  by (cases v) (simp_all add: sanitizeUrl_def)

theorem sanitizeUrl_non_string_witness:
  "sanitizeUrl (JNum ''42'') = JStr []
   \<and> sanitizeUrl JNull = JStr []
   \<and> sanitizeUrl JUndefined = JStr []
   \<and> sanitizeUrl (JArr [JStr sample_url]) = JStr []
   \<and> sanitizeUrl (JObj [(''href'', JStr sample_url)]) = JStr []
   \<and> sanitizeUrl (JBool True) = JStr []"
  using sanitizeUrl_non_string [of "JNum ''42''"] sanitizeUrl_non_string [of JNull]
    sanitizeUrl_non_string [of JUndefined] sanitizeUrl_non_string [of "JArr [JStr sample_url]"]
    sanitizeUrl_non_string [of "JObj [(''href'', JStr sample_url)]"]
    sanitizeUrl_non_string [of "JBool True"]
  by simp

subsection \<open>URLs that are not web addresses\<close>

text \<open>
  C3. A URL string that the runtime's parser rejects, or parses with a protocol other
  than \<^verbatim>\<open>http:\<close> and \<^verbatim>\<open>https:\<close>, fails \<open>validateImageUrl\<close>, and the handler answers 400 with a
  failure envelope without having made an outbound call.
\<close>

theorem url_scheme_rejected:
  assumes "new_URL rt s \<noteq> Some ''http:''" and "new_URL rt s \<noteq> Some ''https:''"
  shows "\<not> validateImageUrl (new_URL rt) (JStr s)
     \<and> fst (analyzeFromUrl rt \<lparr>url = JStr s, features = fs\<rparr>) = []
     \<and> outcome_status (snd (analyzeFromUrl rt \<lparr>url = JStr s, features = fs\<rparr>)) = Some 400
     \<and> outcome_success (snd (analyzeFromUrl rt \<lparr>url = JStr s, features = fs\<rparr>)) = Some False"
proof -
  from assms have bad: "\<not> validateImageUrl (new_URL rt) (JStr s)"
    by (auto simp: validateImageUrl_def URL_protocol_def split: option.splits)
  then obtain e d where "analyzeFromUrl_try rt \<lparr>url = JStr s, features = fs\<rparr> = ([], Inr (reject 400 e d))"
    using url_rejected_early [of "\<lparr>url = JStr s, features = fs\<rparr>" rt] by auto
  with bad show ?thesis
    by (simp add: analyzeFromUrl_def outcome_status_def outcome_success_def reject_def)
qed

theorem url_scheme_rejected_witness:
  "(\<not> validateImageUrl scheme_protocol (JStr ''javascript:alert(1)'')
     \<and> analyzeFromUrl (runtime_with sample_ok) \<lparr>url = JStr ''javascript:alert(1)'', features = JUndefined\<rparr>
        = ([], Responded (reject 400 ''Invalid URL format''
                ''URL must start with http:// or https:// and point to a valid image'')))
   \<and> (fst (analyzeFromUrl (runtime_with sample_ok) \<lparr>url = JStr ''file:///etc/passwd'', features = JUndefined\<rparr>) = []
     \<and> outcome_status (snd (analyzeFromUrl (runtime_with sample_ok)
          \<lparr>url = JStr ''file:///etc/passwd'', features = JUndefined\<rparr>)) = Some 400)
   \<and> (fst (analyzeFromUrl (runtime_with sample_ok) \<lparr>url = JStr ''data:text/html,hi'', features = JUndefined\<rparr>) = []
     \<and> outcome_status (snd (analyzeFromUrl (runtime_with sample_ok)
          \<lparr>url = JStr ''data:text/html,hi'', features = JUndefined\<rparr>)) = Some 400)
   \<and> (fst (analyzeFromUrl (runtime_with sample_ok) \<lparr>url = JStr ''example.com/cat.jpg'', features = JUndefined\<rparr>) = []
     \<and> outcome_status (snd (analyzeFromUrl (runtime_with sample_ok)
          \<lparr>url = JStr ''example.com/cat.jpg'', features = JUndefined\<rparr>)) = Some 400)"
proof -
  have p1: "scheme_protocol ''javascript:alert(1)'' = Some ''javascript:''" by code_simp
  have p2: "scheme_protocol ''file:///etc/passwd'' = Some ''file:''" by code_simp
  have p3: "scheme_protocol ''data:text/html,hi'' = Some ''data:''" by code_simp
  have p4: "scheme_protocol ''example.com/cat.jpg'' = None" by code_simp
  have n: "new_URL (runtime_with sample_ok) = scheme_protocol" by (simp add: runtime_with_def)
  note w = url_scheme_rejected [of "runtime_with sample_ok" _ JUndefined, unfolded n]
  have "\<not> validateImageUrl scheme_protocol (JStr ''javascript:alert(1)'')"
    using w [of "''javascript:alert(1)''"] p1 by simp
  then have "analyzeFromUrl (runtime_with sample_ok) \<lparr>url = JStr ''javascript:alert(1)'', features = JUndefined\<rparr>
        = ([], Responded (reject 400 ''Invalid URL format''
                ''URL must start with http:// or https:// and point to a valid image''))"
    by (simp add: analyzeFromUrl_def analyzeFromUrl_try_def n)
  then show ?thesis
    using w [of "''javascript:alert(1)''"] w [of "''file:///etc/passwd''"]
      w [of "''data:text/html,hi''"] w [of "''example.com/cat.jpg''"] p1 p2 p3 p4
    by simp
qed

subsection \<open>\<open>analyzeFromUpload\<close>, step by step\<close>

lemma upload_no_file:
  "req_file req = None \<Longrightarrow>
     analyzeFromUpload rt req =
       ([], Responded (reject 400 ''No image file provided''
              (''Please upload an image file using the '' @ [CHR 0x22] @ ''image''
                 @ [CHR 0x22] @ '' field name.'')))"
  by (simp add: analyzeFromUpload_def analyzeFromUpload_try_def)

lemma upload_too_large:
  "req_file req = Some f \<Longrightarrow> size_bytes f > 4 * 1024 * 1024 \<Longrightarrow>
     analyzeFromUpload rt req =
       ([], Responded (reject 413 ''File too large''
              ''Image file must be less than 4MB. Please compress or resize your image.''))"
  by (simp add: analyzeFromUpload_def analyzeFromUpload_try_def)

lemma upload_too_small:
  "req_file req = Some f \<Longrightarrow> size_bytes f < 1024 \<Longrightarrow>
     analyzeFromUpload rt req =
       ([], Responded (reject 400 ''File too small''
              ''Image file must be at least 1KB. The uploaded file appears to be invalid or corrupted.''))"
  by (simp add: analyzeFromUpload_def analyzeFromUpload_try_def)

lemma upload_bad_type:
  "req_file req = Some f \<Longrightarrow> 1024 \<le> size_bytes f \<Longrightarrow> size_bytes f \<le> 4 * 1024 * 1024 \<Longrightarrow>
   mimetype f \<notin> set validMimeTypes \<Longrightarrow>
     analyzeFromUpload rt req =
       ([], Responded (reject 415 ''Unsupported file type''
              (''File type '' @ [CHR 0x22] @ mimetype f @ [CHR 0x22]
                 @ '' is not supported. Please upload a JPEG, PNG, GIF, BMP, or WEBP image.'')))"
  by (simp add: analyzeFromUpload_def analyzeFromUpload_try_def)

lemma upload_checks_passed:
  assumes "req_file req = Some f" and "file_ok f"
  shows "analyzeFromUpload_try rt req =
     (let checked =
              (if truthy (body_features req) then
                 (case parseFeatures (JSON_parse rt) (body_features req) of
                    Inl stop \<Rightarrow> Inl stop
                  | Inr fs \<Rightarrow>
                      (case checkFeatureNames fs of
                         Some stop \<Rightarrow> Inl stop
                       | None \<Rightarrow> Inr fs))
               else Inr (map JStr defaultFeatures))
            in (case checked of
                  Inl stop \<Rightarrow> ([], stop)
                | Inr feature_list \<Rightarrow>
                    (case join_js '','' feature_list of
                       None \<Rightarrow> ([], Inl TypeError)
                     | Some joined \<Rightarrow>
                         (case axios_post rt (upload_call f joined) of
                               Rejected e \<Rightarrow> ([upload_call f joined], Inl e)
                             | Resolved response_data request_id \<Rightarrow>
                                 ([upload_call f joined],
                                  Inr \<lparr>status = 200,
                                       body = Success response_data
                                         \<lparr>requestId = request_id,
                                          timestamp = now rt,
                                          featuresUsed = JArr feature_list,
                                          filename = Some (originalname f),
                                          fileSize = Some (size_bytes f),
                                          mimeType = Some (mimetype f)\<rparr>\<rparr>)))))"
  using assms unfolding analyzeFromUpload_try_def file_ok_def upload_call_def Let_def
  by simp

lemma upload_forwarded:
  assumes "req_file req = Some f" and "file_ok f"
    and "truthy (body_features req) \<and> parseFeatures (JSON_parse rt) (body_features req) = Inr (map JStr names)
           \<and> set names \<subseteq> set validFeatures
         \<or> \<not> truthy (body_features req) \<and> names = defaultFeatures"
  shows "analyzeFromUpload rt req =
     ([upload_call f (join '','' names)],
      case axios_post rt (upload_call f (join '','' names)) of
        Rejected e \<Rightarrow> analyzeFromUpload_catch e
      | Resolved response_data request_id \<Rightarrow>
          Responded \<lparr>status = 200,
             body = Success response_data
               \<lparr>requestId = request_id, timestamp = now rt,
                featuresUsed = JArr (map JStr names),
                filename = Some (originalname f), fileSize = Some (size_bytes f),
                mimeType = Some (mimetype f)\<rparr>\<rparr>)"
proof -
  from assms(3) have inv: "truthy (body_features req) \<Longrightarrow> checkFeatureNames (map JStr names) = None"
    by (auto simp: checkFeatureNames_strs filter_empty_conv)
  from assms(3) show ?thesis
    unfolding analyzeFromUpload_def upload_checks_passed [OF assms(1,2)]
    by (auto simp: inv join_js_strs Let_def split: axios_result.splits)
qed

lemma upload_stopped:
  assumes "req_file req = Some f" and "file_ok f" and "truthy (body_features req)"
    and "parseFeatures (JSON_parse rt) (body_features req) = Inl stop
         \<or> (\<exists>fs. parseFeatures (JSON_parse rt) (body_features req) = Inr fs
                \<and> checkFeatureNames fs = Some stop)"
  shows "analyzeFromUpload_try rt req = ([], stop)"
  using assms(3,4) unfolding upload_checks_passed [OF assms(1,2)] by auto

lemma sample_file_ok: "1024 \<le> n \<Longrightarrow> n \<le> 4194304 \<Longrightarrow> file_ok (sample_file n ''image/png'')"
  by (simp add: file_ok_def sample_file_def validMimeTypes_def)

lemma sample_upload_rejected:
  assumes "1024 \<le> n" and "n \<le> 4194304"
  shows "analyzeFromUpload (runtime_with (Rejected e))
       \<lparr>req_file = Some (sample_file n ''image/png''), body_features = JUndefined\<rparr> =
     ([upload_call (sample_file n ''image/png'') ''Description,Tags,Objects,Color''],
      analyzeFromUpload_catch e)"
proof -
  let ?req = "\<lparr>req_file = Some (sample_file n ''image/png''), body_features = JUndefined\<rparr>"
  have "analyzeFromUpload (runtime_with (Rejected e)) ?req =
     ([upload_call (sample_file n ''image/png'') (join '','' defaultFeatures)],
      case axios_post (runtime_with (Rejected e))
             (upload_call (sample_file n ''image/png'') (join '','' defaultFeatures)) of
        Rejected e \<Rightarrow> analyzeFromUpload_catch e
      | Resolved response_data request_id \<Rightarrow>
          Responded \<lparr>status = 200,
             body = Success response_data
               \<lparr>requestId = request_id, timestamp = now (runtime_with (Rejected e)),
                featuresUsed = JArr (map JStr defaultFeatures),
                filename = Some (originalname (sample_file n ''image/png'')),
                fileSize = Some (size_bytes (sample_file n ''image/png'')),
                mimeType = Some (mimetype (sample_file n ''image/png''))\<rparr>\<rparr>)"
    by (rule upload_forwarded) (simp_all add: sample_file_ok assms)
  then show ?thesis by (simp add: runtime_with_def defaultFeatures_def)
qed

subsection \<open>Errors without a response\<close>

text \<open>
  What the two \<^verbatim>\<open>catch\<close> blocks make of an error without a response: both answer a
  timeout with 504; only \<open>analyzeFromUrl\<close> answers a failed lookup or a refused connection
  with 503.
\<close>

lemma timeout_answered_504:
  "analyzeFromUrl_catch (CodedError (JStr ''ECONNABORTED'')) =
     Responded (reject 504 ''Request timeout''
       ''The image analysis request took too long. Please try again with a smaller image.'')"
  "analyzeFromUpload_catch (CodedError (JStr ''ECONNABORTED'')) =
     Responded (reject 504 ''Request timeout''
       ''Image processing took too long. Please try with a smaller image.'')"
  by (simp_all add: analyzeFromUrl_catch_def analyzeFromUpload_catch_def error_code_def)

lemma unreachable_answered_503_in_url_mode:
  "c = JStr ''ENOTFOUND'' \<or> c = JStr ''ECONNREFUSED'' \<Longrightarrow>
     analyzeFromUrl_catch (CodedError c) =
       Responded (reject 503 ''Service unavailable''
         ''Unable to connect to Azure Computer Vision service. Please try again later.'')"
  by (auto simp: analyzeFromUrl_catch_def error_code_def)

lemma other_codes_answered_500_in_upload_mode:
  "c \<noteq> JStr ''ECONNABORTED'' \<Longrightarrow>
     analyzeFromUpload_catch (CodedError c) =
       Responded (reject 500 ''Failed to analyze uploaded image''
         ''An unexpected error occurred during image analysis.'')"
  by (simp add: analyzeFromUpload_catch_def error_code_def)

text \<open>
  C2 (the code at the failing input). A refused connection is answered 503 by
  \<open>analyzeFromUrl\<close> and 500 by \<open>analyzeFromUpload\<close>, whose \<^verbatim>\<open>catch\<close> block has no branch
  for it.
\<close>

theorem connection_refused_url_503_upload_500:
  "analyzeFromUrl (runtime_with (Rejected (CodedError (JStr ''ECONNREFUSED''))))
         \<lparr>url = JStr sample_url, features = JUndefined\<rparr>
     = ([url_call (JStr sample_url) ''Description,Tags,Objects,Color''],
        Responded (reject 503 ''Service unavailable''
         ''Unable to connect to Azure Computer Vision service. Please try again later.''))
   \<and> analyzeFromUpload (runtime_with (Rejected (CodedError (JStr ''ECONNREFUSED''))))
         \<lparr>req_file = Some (sample_file 2048 ''image/png''), body_features = JUndefined\<rparr>
     = ([upload_call (sample_file 2048 ''image/png'') ''Description,Tags,Objects,Color''],
        Responded (reject 500 ''Failed to analyze uploaded image''
          ''An unexpected error occurred during image analysis.''))"
  by (simp add: sample_url_rejected sample_upload_rejected analyzeFromUrl_catch_def
      analyzeFromUpload_catch_def error_code_def)

subsection \<open>Default features\<close>

text \<open>
  C5. In URL mode, a request with an acceptable URL and no \<^verbatim>\<open>features\<close> field forwards the
  four default features; with \<^verbatim>\<open>features: []\<close> it forwards an empty list. Either way one
  call is made, and a success reports the same list as \<^verbatim>\<open>featuresUsed\<close>.
\<close>

theorem url_default_features:
  assumes "truthy u" and "validateImageUrl (new_URL rt) u" and "\<not> length_gt u 2048"
  shows
    "analyzeFromUrl rt \<lparr>url = u, features = JUndefined\<rparr> =
       ([url_call u ''Description,Tags,Objects,Color''],
        case axios_post rt (url_call u ''Description,Tags,Objects,Color'') of
          Rejected e \<Rightarrow> analyzeFromUrl_catch e
        | Resolved response_data request_id \<Rightarrow>
            Responded \<lparr>status = 200,
               body = Success response_data
                 \<lparr>requestId = request_id, timestamp = now rt,
                  featuresUsed =
                    JArr [JStr ''Description'', JStr ''Tags'', JStr ''Objects'', JStr ''Color''],
                  filename = None, fileSize = None, mimeType = None\<rparr>\<rparr>)
     \<and> analyzeFromUrl rt \<lparr>url = u, features = JArr []\<rparr> =
       ([url_call u []],
        case axios_post rt (url_call u []) of
          Rejected e \<Rightarrow> analyzeFromUrl_catch e
        | Resolved response_data request_id \<Rightarrow>
            Responded \<lparr>status = 200,
               body = Success response_data
                 \<lparr>requestId = request_id, timestamp = now rt,
                  featuresUsed = JArr [],
                  filename = None, fileSize = None, mimeType = None\<rparr>\<rparr>)"
proof -
  have a: "analyzeFromUrl rt \<lparr>url = u, features = JUndefined\<rparr> =
     ([url_call (url \<lparr>url = u, features = JUndefined\<rparr>) (join '','' defaultFeatures)],
      case axios_post rt (url_call (url \<lparr>url = u, features = JUndefined\<rparr>) (join '','' defaultFeatures)) of
        Rejected e \<Rightarrow> analyzeFromUrl_catch e
      | Resolved response_data request_id \<Rightarrow>
          Responded \<lparr>status = 200,
             body = Success response_data
               \<lparr>requestId = request_id, timestamp = now rt,
                featuresUsed = JArr (map JStr defaultFeatures),
                filename = None, fileSize = None, mimeType = None\<rparr>\<rparr>)"
    by (rule url_forwarded) (simp_all add: assms)
  have b: "analyzeFromUrl rt \<lparr>url = u, features = JArr []\<rparr> =
     ([url_call (url \<lparr>url = u, features = JArr []\<rparr>) (join '','' [])],
      case axios_post rt (url_call (url \<lparr>url = u, features = JArr []\<rparr>) (join '','' [])) of
        Rejected e \<Rightarrow> analyzeFromUrl_catch e
      | Resolved response_data request_id \<Rightarrow>
          Responded \<lparr>status = 200,
             body = Success response_data
               \<lparr>requestId = request_id, timestamp = now rt,
                featuresUsed = JArr (map JStr []),
                filename = None, fileSize = None, mimeType = None\<rparr>\<rparr>)"
    by (rule url_forwarded) (simp_all add: assms)
  from a b show ?thesis by (simp add: defaultFeatures_def split: axios_result.splits)
qed

theorem url_default_features_witness:
  "analyzeFromUrl (runtime_with sample_ok) \<lparr>url = JStr sample_url, features = JUndefined\<rparr> =
     ([url_call (JStr sample_url) ''Description,Tags,Objects,Color''],
      Responded \<lparr>status = 200,
         body = Success (JObj [(''description'', JObj [])])
           \<lparr>requestId = JStr ''req-1'', timestamp = ''2024-01-01T00:00:00.000Z'',
            featuresUsed =
              JArr [JStr ''Description'', JStr ''Tags'', JStr ''Objects'', JStr ''Color''],
            filename = None, fileSize = None, mimeType = None\<rparr>\<rparr>)
   \<and> analyzeFromUrl (runtime_with sample_ok) \<lparr>url = JStr sample_url, features = JArr []\<rparr> =
     ([url_call (JStr sample_url) []],
      Responded \<lparr>status = 200,
         body = Success (JObj [(''description'', JObj [])])
           \<lparr>requestId = JStr ''req-1'', timestamp = ''2024-01-01T00:00:00.000Z'',
            featuresUsed = JArr [],
            filename = None, fileSize = None, mimeType = None\<rparr>\<rparr>)
   \<and> visualFeatures (url_call (JStr sample_url) []) = []"
proof -
  have n: "new_URL (runtime_with sample_ok) = scheme_protocol" by (simp add: runtime_with_def)
  have p: "axios_post (runtime_with sample_ok) =
      (\<lambda>call. Resolved (JObj [(''description'', JObj [])]) (JStr ''req-1''))"
    "now (runtime_with sample_ok) = ''2024-01-01T00:00:00.000Z''"
    by (simp_all add: runtime_with_def sample_ok_def)
  have v: "visualFeatures (url_call (JStr sample_url) []) = []" by (simp add: url_call_def)
  have "truthy (JStr sample_url)" "validateImageUrl (new_URL (runtime_with sample_ok)) (JStr sample_url)"
    "\<not> length_gt (JStr sample_url) 2048"
    by (simp_all add: sample_url_passes n)
  from url_default_features [OF this] v show ?thesis
    by (simp add: p)
qed

subsection \<open>Upload size and type\<close>

text \<open>
  C6. In upload mode a file larger than 4 MiB is answered 413 "File too large" and a file
  smaller than 1 KiB is answered 400 "File too small", whatever its type; the type is
  looked at only for a size within the bounds, and a file of an accepted type and size
  (1024 and 4194304 bytes included) is forwarded.
\<close>

theorem upload_size_boundaries:
  assumes "req_file req = Some f"
  shows
    "(size_bytes f > 4 * 1024 * 1024 \<longrightarrow>
        analyzeFromUpload rt req =
          ([], Responded (reject 413 ''File too large''
                 ''Image file must be less than 4MB. Please compress or resize your image.'')))
     \<and> (size_bytes f < 1024 \<longrightarrow>
        analyzeFromUpload rt req =
          ([], Responded (reject 400 ''File too small''
                 ''Image file must be at least 1KB. The uploaded file appears to be invalid or corrupted.'')))
     \<and> (1024 \<le> size_bytes f \<and> size_bytes f \<le> 4 * 1024 * 1024
          \<and> mimetype f \<notin> set validMimeTypes \<longrightarrow>
        analyzeFromUpload rt req =
          ([], Responded (reject 415 ''Unsupported file type''
                 (''File type '' @ [CHR 0x22] @ mimetype f @ [CHR 0x22]
                    @ '' is not supported. Please upload a JPEG, PNG, GIF, BMP, or WEBP image.''))))
     \<and> (1024 \<le> size_bytes f \<and> size_bytes f \<le> 4 * 1024 * 1024
          \<and> mimetype f \<in> set validMimeTypes \<and> \<not> truthy (body_features req) \<longrightarrow>
        fst (analyzeFromUpload rt req) = [upload_call f ''Description,Tags,Objects,Color''])"
proof -
  have "fst (analyzeFromUpload rt req) = [upload_call f ''Description,Tags,Objects,Color'']"
    if "file_ok f" and "\<not> truthy (body_features req)"
    using upload_forwarded [OF assms that(1), of rt defaultFeatures] that(2)
    by (simp add: defaultFeatures_def)
  then show ?thesis
    using upload_too_large [OF assms, of rt] upload_too_small [OF assms, of rt]
      upload_bad_type [OF assms, of rt]
    by (simp add: file_ok_def)
qed

theorem upload_size_boundaries_witness:
  "fst (analyzeFromUpload (runtime_with sample_ok)
          \<lparr>req_file = Some (sample_file 1024 ''image/png''), body_features = JUndefined\<rparr>)
     = [upload_call (sample_file 1024 ''image/png'') ''Description,Tags,Objects,Color'']
   \<and> analyzeFromUpload (runtime_with sample_ok)
          \<lparr>req_file = Some (sample_file 1023 ''image/png''), body_features = JUndefined\<rparr>
     = ([], Responded (reject 400 ''File too small''
              ''Image file must be at least 1KB. The uploaded file appears to be invalid or corrupted.''))
   \<and> fst (analyzeFromUpload (runtime_with sample_ok)
          \<lparr>req_file = Some (sample_file 4194304 ''image/png''), body_features = JUndefined\<rparr>)
     = [upload_call (sample_file 4194304 ''image/png'') ''Description,Tags,Objects,Color'']
   \<and> analyzeFromUpload (runtime_with sample_ok)
          \<lparr>req_file = Some (sample_file 4194305 ''image/png''), body_features = JUndefined\<rparr>
     = ([], Responded (reject 413 ''File too large''
              ''Image file must be less than 4MB. Please compress or resize your image.''))
   \<and> analyzeFromUpload (runtime_with sample_ok)
          \<lparr>req_file = Some (sample_file 1023 ''text/plain''), body_features = JUndefined\<rparr>
     = ([], Responded (reject 400 ''File too small''
              ''Image file must be at least 1KB. The uploaded file appears to be invalid or corrupted.''))
   \<and> analyzeFromUpload (runtime_with sample_ok)
          \<lparr>req_file = Some (sample_file 4194305 ''text/plain''), body_features = JUndefined\<rparr>
     = ([], Responded (reject 413 ''File too large''
              ''Image file must be less than 4MB. Please compress or resize your image.''))
   \<and> outcome_status (snd (analyzeFromUpload (runtime_with sample_ok)
          \<lparr>req_file = Some (sample_file 1024 ''text/plain''), body_features = JUndefined\<rparr>))
     = Some 415"
proof -
  note w = upload_size_boundaries [of "\<lparr>req_file = Some (sample_file n m), body_features = JUndefined\<rparr>"
      "sample_file n m" "runtime_with sample_ok" for n m, simplified]
  have s: "size_bytes (sample_file n m) = n" "mimetype (sample_file n m) = m" for n m
    by (simp_all add: sample_file_def)
  have png: "''image/png'' \<in> set validMimeTypes" "''text/plain'' \<notin> set validMimeTypes"
    by (simp_all add: validMimeTypes_def)
  show ?thesis
    using w [of 1024 "''image/png''"] w [of 1023 "''image/png''"] w [of 4194304 "''image/png''"]
      w [of 4194305 "''image/png''"] w [of 1023 "''text/plain''"] w [of 4194305 "''text/plain''"]
      w [of 1024 "''text/plain''"] png
    by (simp add: s outcome_status_def reject_def)
qed

subsection \<open>Unknown feature names\<close>

lemma reject_outcome:
  "outcome_status (Responded (reject st e d)) = Some st"
  "outcome_success (Responded (reject st e d)) = Some False"
  "outcome_error (Responded (reject st e d)) = Some e"
  "outcome_details (Responded (reject st e d)) = Some (JStr d)"
  by (simp_all add: outcome_status_def outcome_success_def outcome_error_def outcome_details_def
      reject_def)

lemma has_invalid_strs:
  "(\<exists>t\<in>set tags. t \<notin> set validFeatures) \<longleftrightarrow> filter (\<lambda>t. t \<notin> set validFeatures) tags \<noteq> []"
  by (auto simp: filter_empty_conv)

text \<open>The answer to a request whose URL is fine and whose feature array names unknown tags.\<close>

lemma url_unknown_tags:
  assumes "truthy (url req)" and "validateImageUrl (new_URL rt) (url req)"
    and "\<not> length_gt (url req) 2048"
    and "features req = JArr (map JStr tags)" and "\<exists>t\<in>set tags. t \<notin> set validFeatures"
  shows "analyzeFromUrl rt req =
     ([], Responded (reject 400 ''Invalid feature names''
            (''Invalid features: '' @ join '', '' (filter (\<lambda>t. t \<notin> set validFeatures) tags)
               @ ''. Valid features are: '' @ join '', '' validFeatures)))"
  using assms(4,5)
  unfolding analyzeFromUrl_def url_checks_passed [OF assms(1-3)]
  by (simp add: checkFeatureNames_strs has_invalid_strs)

lemma upload_unknown_tags:
  assumes "req_file req = Some f" and "file_ok f" and "truthy (body_features req)"
    and "parseFeatures (JSON_parse rt) (body_features req) = Inr (map JStr tags)"
    and "\<exists>t\<in>set tags. t \<notin> set validFeatures"
  shows "analyzeFromUpload rt req =
     ([], Responded (reject 400 ''Invalid feature names''
            (''Invalid features: '' @ join '', '' (filter (\<lambda>t. t \<notin> set validFeatures) tags)
               @ ''. Valid features are: '' @ join '', '' validFeatures)))"
proof -
  have "analyzeFromUpload_try rt req =
     ([], Inr (reject 400 ''Invalid feature names''
            (''Invalid features: '' @ join '', '' (filter (\<lambda>t. t \<notin> set validFeatures) tags)
               @ ''. Valid features are: '' @ join '', '' validFeatures)))"
    using assms(4,5)
    by (intro upload_stopped [OF assms(1-3)])
       (simp add: checkFeatureNames_strs has_invalid_strs)
  then show ?thesis by (simp add: analyzeFromUpload_def)
qed

text \<open>Whatever is wrong before the feature check is answered 400, 413 or 415, without a call.\<close>

lemma upload_file_rejected:
  assumes "\<not> (\<exists>f. req_file req = Some f \<and> file_ok f)"
  shows "\<exists>st e d. st \<in> {400, 413, 415} \<and> analyzeFromUpload rt req = ([], Responded (reject st e d))"
proof (cases "req_file req")
  case None
  then show ?thesis using upload_no_file [of req rt] by blast
next
  case (Some f)
  with assms have "\<not> file_ok f" by simp
  then consider "size_bytes f > 4 * 1024 * 1024" | "size_bytes f < 1024"
    | "1024 \<le> size_bytes f" "size_bytes f \<le> 4 * 1024 * 1024" "mimetype f \<notin> set validMimeTypes"
    unfolding file_ok_def by linarith
  then show ?thesis
  proof cases
    case 1
    from upload_too_large [OF Some 1, of rt] show ?thesis by blast
  next
    case 2
    from upload_too_small [OF Some 2, of rt] show ?thesis by blast
  next
    case 3
    from upload_bad_type [OF Some 3, of rt] show ?thesis by blast
  qed
qed

lemma url_early_outcome:
  assumes "\<not> (truthy (url req) \<and> validateImageUrl (new_URL rt) (url req) \<and> \<not> length_gt (url req) 2048)"
  shows "\<exists>e d. analyzeFromUrl rt req = ([], Responded (reject 400 e d))"
proof -
  from assms obtain e d where "analyzeFromUrl_try rt req = ([], Inr (reject 400 e d))"
    using url_rejected_early [of req rt] by auto
  then have "analyzeFromUrl rt req = ([], Responded (reject 400 e d))"
    by (simp add: analyzeFromUrl_def)
  then show ?thesis by blast
qed

text \<open>
  Tags that are strings. A sequence with a tag outside the fixed set never leads to an
  outbound call: the request is answered with a failure of the 4xx family, in URL mode
  and in upload mode. When nothing earlier in the request is wrong, the answer is 400 and
  its details list every offending tag, in order, and then the nine valid ones.
\<close>

lemma unknown_string_tags_rejected:
  assumes "\<exists>t\<in>set tags. t \<notin> set validFeatures"
  shows
    "(fst (analyzeFromUrl rt \<lparr>url = u, features = JArr (map JStr tags)\<rparr>) = []
      \<and> outcome_success (snd (analyzeFromUrl rt \<lparr>url = u, features = JArr (map JStr tags)\<rparr>))
          = Some False
      \<and> outcome_status (snd (analyzeFromUrl rt \<lparr>url = u, features = JArr (map JStr tags)\<rparr>))
          = Some 400)
     \<and> (truthy u \<and> validateImageUrl (new_URL rt) u \<and> \<not> length_gt u 2048 \<longrightarrow>
          snd (analyzeFromUrl rt \<lparr>url = u, features = JArr (map JStr tags)\<rparr>) =
            Responded (reject 400 ''Invalid feature names''
              (''Invalid features: '' @ join '', '' (filter (\<lambda>t. t \<notin> set validFeatures) tags)
                 @ ''. Valid features are: Description, Tags, Objects, Color, ImageType, Faces, Adult, Brands, Categories'')))
     \<and> (s \<noteq> [] \<and> parseFeatures (JSON_parse rt) (JStr s) = Inr (map JStr tags) \<longrightarrow>
          fst (analyzeFromUpload rt \<lparr>req_file = fo, body_features = JStr s\<rparr>) = []
          \<and> outcome_success (snd (analyzeFromUpload rt \<lparr>req_file = fo, body_features = JStr s\<rparr>))
              = Some False
          \<and> outcome_status (snd (analyzeFromUpload rt \<lparr>req_file = fo, body_features = JStr s\<rparr>))
              \<in> {Some 400, Some 413, Some 415}
          \<and> ((\<exists>f. fo = Some f \<and> file_ok f) \<longrightarrow>
               snd (analyzeFromUpload rt \<lparr>req_file = fo, body_features = JStr s\<rparr>) =
                 Responded (reject 400 ''Invalid feature names''
                   (''Invalid features: ''
                      @ join '', '' (filter (\<lambda>t. t \<notin> set validFeatures) tags)
                      @ ''. Valid features are: Description, Tags, Objects, Color, ImageType, Faces, Adult, Brands, Categories''))))"
proof -
  let ?ureq = "\<lparr>url = u, features = JArr (map JStr tags)\<rparr>"
  let ?freq = "\<lparr>req_file = fo, body_features = JStr s\<rparr>"
  let ?answer = "reject 400 ''Invalid feature names''
              (''Invalid features: '' @ join '', '' (filter (\<lambda>t. t \<notin> set validFeatures) tags)
                 @ ''. Valid features are: '' @ join '', '' validFeatures)"
  have valid: "join '', '' validFeatures =
      ''Description, Tags, Objects, Color, ImageType, Faces, Adult, Brands, Categories''"
    by (simp add: validFeatures_def)
  have u_ok: "analyzeFromUrl rt ?ureq = ([], Responded ?answer)"
    if "truthy u \<and> validateImageUrl (new_URL rt) u \<and> \<not> length_gt u 2048"
    using that assms(1) by (intro url_unknown_tags) simp_all
  have u_all: "\<exists>e d. analyzeFromUrl rt ?ureq = ([], Responded (reject 400 e d))"
  proof (cases "truthy u \<and> validateImageUrl (new_URL rt) u \<and> \<not> length_gt u 2048")
    case True
    from u_ok [OF True] show ?thesis by blast
  next
    case False
    then show ?thesis using url_early_outcome [of ?ureq rt] by simp
  qed
  have u_part: "fst (analyzeFromUrl rt ?ureq) = []
      \<and> outcome_success (snd (analyzeFromUrl rt ?ureq)) = Some False
      \<and> outcome_status (snd (analyzeFromUrl rt ?ureq)) = Some 400"
  proof -
    from u_all obtain e d where "analyzeFromUrl rt ?ureq = ([], Responded (reject 400 e d))"
      by blast
    then show ?thesis by (simp add: reject_outcome)
  qed
  have u_exact: "truthy u \<and> validateImageUrl (new_URL rt) u \<and> \<not> length_gt u 2048 \<longrightarrow>
      snd (analyzeFromUrl rt ?ureq) = Responded ?answer"
    using u_ok by simp
  have f_part: "fst (analyzeFromUpload rt ?freq) = []
      \<and> outcome_success (snd (analyzeFromUpload rt ?freq)) = Some False
      \<and> outcome_status (snd (analyzeFromUpload rt ?freq)) \<in> {Some 400, Some 413, Some 415}
      \<and> ((\<exists>f. fo = Some f \<and> file_ok f) \<longrightarrow>
            snd (analyzeFromUpload rt ?freq) = Responded ?answer)"
    if parsed: "s \<noteq> [] \<and> parseFeatures (JSON_parse rt) (JStr s) = Inr (map JStr tags)"
  proof -
    have f_ok: "analyzeFromUpload rt ?freq = ([], Responded ?answer)"
      if "fo = Some f" "file_ok f" for f
      using that parsed assms by (intro upload_unknown_tags) simp_all
    have "\<exists>st e d. st \<in> {400, 413, 415}
        \<and> analyzeFromUpload rt ?freq = ([], Responded (reject st e d))"
    proof (cases "\<exists>f. fo = Some f \<and> file_ok f")
      case True
      then obtain f where "fo = Some f" "file_ok f" by blast
      from f_ok [OF this] show ?thesis by blast
    next
      case False
      then show ?thesis using upload_file_rejected [of ?freq rt] by simp
    qed
    then obtain st e d where "st \<in> {400, 413, 415}"
      "analyzeFromUpload rt ?freq = ([], Responded (reject st e d))" by blast
    moreover have "(\<exists>f. fo = Some f \<and> file_ok f) \<longrightarrow>
        snd (analyzeFromUpload rt ?freq) = Responded ?answer"
      using f_ok by auto
    ultimately show ?thesis by (auto simp: reject_outcome)
  qed
  from u_part u_exact f_part show ?thesis
    by (simp add: valid)
qed

lemma unknown_string_tags_rejected_example:
  "analyzeFromUrl (runtime_with sample_ok)
      \<lparr>url = JStr sample_url, features = JArr [JStr ''Tags'', JStr ''Foo'', JStr ''Faces'', JStr ''Bar'']\<rparr>
     = ([], Responded (reject 400 ''Invalid feature names''
          ''Invalid features: Foo, Bar. Valid features are: Description, Tags, Objects, Color, ImageType, Faces, Adult, Brands, Categories''))
   \<and> analyzeFromUpload (runtime_with sample_ok)
      \<lparr>req_file = Some (sample_file 2048 ''image/png''), body_features = JStr ''Tags, Foo,Faces ,Bar''\<rparr>
     = ([], Responded (reject 400 ''Invalid feature names''
          ''Invalid features: Foo, Bar. Valid features are: Description, Tags, Objects, Color, ImageType, Faces, Adult, Brands, Categories''))
   \<and> fst (analyzeFromUrl (runtime_with sample_ok)
      \<lparr>url = JNull, features = JArr [JStr ''Tags'', JStr ''Foo'', JStr ''Faces'', JStr ''Bar'']\<rparr>) = []
   \<and> fst (analyzeFromUpload (runtime_with sample_ok)
      \<lparr>req_file = None, body_features = JStr ''Tags, Foo,Faces ,Bar''\<rparr>) = []"
proof -
  let ?tags = "[''Tags'', ''Foo'', ''Faces'', ''Bar'']"
  let ?s = "''Tags, Foo,Faces ,Bar''"
  have bad: "\<exists>t\<in>set ?tags. t \<notin> set validFeatures"
    by (simp add: validFeatures_def)
  have offending: "filter (\<lambda>t. t \<notin> set validFeatures) ?tags = [''Foo'', ''Bar'']"
    by (simp add: validFeatures_def)
  have parsed: "parseFeatures (JSON_parse (runtime_with sample_ok)) (JStr ?s) = Inr (map JStr ?tags)"
    unfolding runtime_with_def by simp code_simp
  have url_fine: "truthy (JStr sample_url)"
    "validateImageUrl (new_URL (runtime_with sample_ok)) (JStr sample_url)"
    "\<not> length_gt (JStr sample_url) 2048"
    by (simp_all add: sample_url_passes runtime_with_def)
  have file_fine: "file_ok (sample_file 2048 ''image/png'')" by (simp add: sample_file_ok)
  note w = unknown_string_tags_rejected [OF bad, of "runtime_with sample_ok" _ ?s, unfolded offending]
  from w [of "JStr sample_url" "Some (sample_file 2048 ''image/png'')"] url_fine file_fine parsed
  have "snd (analyzeFromUrl (runtime_with sample_ok)
      \<lparr>url = JStr sample_url, features = JArr (map JStr ?tags)\<rparr>)
     = Responded (reject 400 ''Invalid feature names''
          ''Invalid features: Foo, Bar. Valid features are: Description, Tags, Objects, Color, ImageType, Faces, Adult, Brands, Categories'')
    \<and> fst (analyzeFromUrl (runtime_with sample_ok)
      \<lparr>url = JStr sample_url, features = JArr (map JStr ?tags)\<rparr>) = []
    \<and> snd (analyzeFromUpload (runtime_with sample_ok)
      \<lparr>req_file = Some (sample_file 2048 ''image/png''), body_features = JStr ?s\<rparr>)
     = Responded (reject 400 ''Invalid feature names''
          ''Invalid features: Foo, Bar. Valid features are: Description, Tags, Objects, Color, ImageType, Faces, Adult, Brands, Categories'')
    \<and> fst (analyzeFromUpload (runtime_with sample_ok)
      \<lparr>req_file = Some (sample_file 2048 ''image/png''), body_features = JStr ?s\<rparr>) = []"
    by simp
  moreover from w [of JNull None] parsed
  have "fst (analyzeFromUrl (runtime_with sample_ok)
      \<lparr>url = JNull, features = JArr (map JStr ?tags)\<rparr>) = []
    \<and> fst (analyzeFromUpload (runtime_with sample_ok)
      \<lparr>req_file = None, body_features = JStr ?s\<rparr>) = []"
    by simp
  ultimately show ?thesis by (simp add: prod_eq_iff)
qed

subsection \<open>The feature field of an upload\<close>

lemma tags_objects_split:
  "map (\<lambda>f. JStr (trim f)) (split_on CHR '','' ''Tags, Objects'') = [JStr ''Tags'', JStr ''Objects'']"
  by code_simp

lemma upload_catch_TypeError:
  "analyzeFromUpload_catch TypeError =
     Responded (reject 500 ''Failed to analyze uploaded image''
       ''An unexpected error occurred during image analysis.'')"
  by (simp add: analyzeFromUpload_catch_def error_code_def)

lemma url_catch_TypeError:
  "analyzeFromUrl_catch TypeError =
     Responded (reject 500 ''Failed to analyze image''
       ''An unexpected error occurred. Please try again later.'')"
  by (simp add: analyzeFromUrl_catch_def error_code_def)

lemma upload_invalid_names:
  assumes "req_file req = Some f" and "file_ok f" and "truthy (body_features req)"
    and "parseFeatures (JSON_parse rt) (body_features req) = Inr fs"
    and "invalidFeatures fs \<noteq> []"
  shows "fst (analyzeFromUpload rt req) = []
     \<and> outcome_success (snd (analyzeFromUpload rt req)) = Some False
     \<and> outcome_status (snd (analyzeFromUpload rt req)) \<in> {Some 400, Some 500}"
proof -
  from assms(5) obtain stop where stop: "checkFeatureNames fs = Some stop"
    using checkFeatureNames_None [of fs] by (cases "checkFeatureNames fs") auto
  with assms(4) have "analyzeFromUpload_try rt req = ([], stop)"
    by (intro upload_stopped [OF assms(1-3)]) simp
  moreover from checkFeatureNames_stop [OF stop]
  have "stop = Inl TypeError \<or> (\<exists>d. stop = Inr (reject 400 ''Invalid feature names'' d))" .
  ultimately show ?thesis
    by (auto simp: analyzeFromUpload_def upload_catch_TypeError reject_outcome)
qed

text \<open>
  C8. A non-empty feature field is first given to the JSON parser. If that fails, the
  field is split at its commas and each piece trimmed, so that \<^verbatim>\<open>Tags, Objects\<close> becomes
  \<^verbatim>\<open>["Tags","Objects"]\<close>; if it yields an array, the array is taken. Either list then goes
  through the check of the names: with an element outside the fixed set no call is made
  and the answer is a failure, and a list of valid names is forwarded joined by commas.
\<close>

theorem feature_field_parsing:
  assumes "s \<noteq> []"
  shows
    "(parse s = None \<longrightarrow>
        parseFeatures parse (JStr s) = Inr (map (\<lambda>f. JStr (trim f)) (split_on CHR '','' s)))
     \<and> (parse s = Some (JArr fs) \<longrightarrow> parseFeatures parse (JStr s) = Inr fs)
     \<and> (parse ''Tags, Objects'' = None \<longrightarrow>
        parseFeatures parse (JStr ''Tags, Objects'') = Inr [JStr ''Tags'', JStr ''Objects''])
     \<and> (req_file req = Some f \<and> file_ok f \<and> body_features req = JStr s
          \<and> parseFeatures (JSON_parse rt) (JStr s) = Inr fs \<and> invalidFeatures fs \<noteq> [] \<longrightarrow>
        fst (analyzeFromUpload rt req) = []
        \<and> outcome_success (snd (analyzeFromUpload rt req)) = Some False)
     \<and> (req_file req = Some f \<and> file_ok f \<and> body_features req = JStr s
          \<and> parseFeatures (JSON_parse rt) (JStr s) = Inr (map JStr names)
          \<and> set names \<subseteq> set validFeatures \<longrightarrow>
        analyzeFromUpload rt req =
          ([upload_call f (join '','' names)],
           case axios_post rt (upload_call f (join '','' names)) of
             Rejected e \<Rightarrow> analyzeFromUpload_catch e
           | Resolved response_data request_id \<Rightarrow>
               Responded \<lparr>status = 200,
                  body = Success response_data
                    \<lparr>requestId = request_id, timestamp = now rt,
                     featuresUsed = JArr (map JStr names),
                     filename = Some (originalname f), fileSize = Some (size_bytes f),
                     mimeType = Some (mimetype f)\<rparr>\<rparr>))"
proof -
  have a: "parse s = None \<longrightarrow>
      parseFeatures parse (JStr s) = Inr (map (\<lambda>f. JStr (trim f)) (split_on CHR '','' s))"
    by (simp add: parseFeatures_def)
  have b: "parse s = Some (JArr fs) \<longrightarrow> parseFeatures parse (JStr s) = Inr fs"
    by (simp add: parseFeatures_def)
  have c: "parse ''Tags, Objects'' = None \<longrightarrow>
      parseFeatures parse (JStr ''Tags, Objects'') = Inr [JStr ''Tags'', JStr ''Objects'']"
    using tags_objects_split by (simp add: parseFeatures_def)
  have d: "fst (analyzeFromUpload rt req) = []
      \<and> outcome_success (snd (analyzeFromUpload rt req)) = Some False"
    if "req_file req = Some f \<and> file_ok f \<and> body_features req = JStr s
        \<and> parseFeatures (JSON_parse rt) (JStr s) = Inr fs \<and> invalidFeatures fs \<noteq> []"
    using upload_invalid_names [of req f rt fs] that assms by simp
  have e: "analyzeFromUpload rt req =
          ([upload_call f (join '','' names)],
           case axios_post rt (upload_call f (join '','' names)) of
             Rejected e \<Rightarrow> analyzeFromUpload_catch e
           | Resolved response_data request_id \<Rightarrow>
               Responded \<lparr>status = 200,
                  body = Success response_data
                    \<lparr>requestId = request_id, timestamp = now rt,
                     featuresUsed = JArr (map JStr names),
                     filename = Some (originalname f), fileSize = Some (size_bytes f),
                     mimeType = Some (mimetype f)\<rparr>\<rparr>)"
    if "req_file req = Some f \<and> file_ok f \<and> body_features req = JStr s
        \<and> parseFeatures (JSON_parse rt) (JStr s) = Inr (map JStr names)
        \<and> set names \<subseteq> set validFeatures"
    using that assms by (intro upload_forwarded) simp_all
  from a b c d e show ?thesis by blast
qed

theorem feature_field_parsing_witness:
  "parseFeatures string_array_parse (JStr ''Tags, Objects'') = Inr [JStr ''Tags'', JStr ''Objects'']
   \<and> analyzeFromUpload (runtime_with sample_ok)
        \<lparr>req_file = Some (sample_file 2048 ''image/png''), body_features = JStr ''Tags, Objects''\<rparr>
      = ([upload_call (sample_file 2048 ''image/png'') ''Tags,Objects''],
         Responded \<lparr>status = 200,
            body = Success (JObj [(''description'', JObj [])])
              \<lparr>requestId = JStr ''req-1'', timestamp = ''2024-01-01T00:00:00.000Z'',
               featuresUsed = JArr [JStr ''Tags'', JStr ''Objects''],
               filename = Some ''cat.jpg'', fileSize = Some 2048,
               mimeType = Some ''image/png''\<rparr>\<rparr>)
   \<and> parseFeatures string_array_parse (JStr (''['' @ [CHR 0x22] @ ''Faces'' @ [CHR 0x22] @ '', ''
          @ [CHR 0x22] @ ''Adult'' @ [CHR 0x22] @ '']''))
      = Inr [JStr ''Faces'', JStr ''Adult'']
   \<and> fst (analyzeFromUpload (runtime_with sample_ok)
        \<lparr>req_file = Some (sample_file 2048 ''image/png''), body_features = JStr ''Tags, Bogus''\<rparr>)
      = []"
proof -
  let ?rt = "runtime_with sample_ok"
  let ?f = "sample_file 2048 ''image/png''"
  let ?json = "''['' @ [CHR 0x22] @ ''Faces'' @ [CHR 0x22] @ '', '' @ [CHR 0x22] @ ''Adult''
      @ [CHR 0x22] @ '']''"
  have n: "JSON_parse ?rt = string_array_parse" by (simp add: runtime_with_def)
  have p: "axios_post ?rt =
      (\<lambda>call. Resolved (JObj [(''description'', JObj [])]) (JStr ''req-1''))"
    "now ?rt = ''2024-01-01T00:00:00.000Z''"
    by (simp_all add: runtime_with_def sample_ok_def)
  have no_json: "string_array_parse ''Tags, Objects'' = None"
    "string_array_parse ''Tags, Bogus'' = None" by code_simp+
  have json: "string_array_parse ?json = Some (JArr [JStr ''Faces'', JStr ''Adult''])"
    by code_simp
  have bogus: "map (\<lambda>f. JStr (trim f)) (split_on CHR '','' ''Tags, Bogus'') = [JStr ''Tags'', JStr ''Bogus'']"
    by code_simp
  have bad: "invalidFeatures [JStr ''Tags'', JStr ''Bogus''] \<noteq> []"
    by (simp add: invalidFeatures_def validFeatures_def)
  have good: "set [''Tags'', ''Objects''] \<subseteq> set validFeatures"
    by (simp add: validFeatures_def)
  have file_fine: "file_ok ?f" by (simp add: sample_file_ok)
  have fields: "originalname ?f = ''cat.jpg''" "size_bytes ?f = 2048" "mimetype ?f = ''image/png''"
    by (simp_all add: sample_file_def)
  have ne: "''Tags, Objects'' \<noteq> []" "''Tags, Bogus'' \<noteq> []" "?json \<noteq> []" by simp_all
  have 1: "parseFeatures string_array_parse (JStr ''Tags, Objects'') = Inr [JStr ''Tags'', JStr ''Objects'']"
    using feature_field_parsing [OF ne(1), of string_array_parse, THEN conjunct2, THEN conjunct2,
        THEN conjunct1] no_json(1)
    by blast
  have 2: "parseFeatures string_array_parse (JStr ?json) = Inr [JStr ''Faces'', JStr ''Adult'']"
    using feature_field_parsing [OF ne(3), of string_array_parse "[JStr ''Faces'', JStr ''Adult'']",
        THEN conjunct2, THEN conjunct1] json
    by blast
  have "parseFeatures string_array_parse (JStr ''Tags, Bogus'')
      = Inr (map (\<lambda>f. JStr (trim f)) (split_on CHR '','' ''Tags, Bogus''))"
    using feature_field_parsing [OF ne(2), of string_array_parse, THEN conjunct1] no_json(2)
    by blast
  then have 3: "parseFeatures string_array_parse (JStr ''Tags, Bogus'') = Inr [JStr ''Tags'', JStr ''Bogus'']"
    by (simp only: bogus)
  have 4: "analyzeFromUpload ?rt \<lparr>req_file = Some ?f, body_features = JStr ''Tags, Objects''\<rparr>
      = ([upload_call ?f ''Tags,Objects''],
         Responded \<lparr>status = 200,
            body = Success (JObj [(''description'', JObj [])])
              \<lparr>requestId = JStr ''req-1'', timestamp = ''2024-01-01T00:00:00.000Z'',
               featuresUsed = JArr [JStr ''Tags'', JStr ''Objects''],
               filename = Some ''cat.jpg'', fileSize = Some 2048,
               mimeType = Some ''image/png''\<rparr>\<rparr>)"
    using feature_field_parsing [OF ne(1), of _ _
        "\<lparr>req_file = Some ?f, body_features = JStr ''Tags, Objects''\<rparr>" ?f ?rt
        "[''Tags'', ''Objects'']", THEN conjunct2, THEN conjunct2, THEN conjunct2, THEN conjunct2]
      1 good file_fine
    by (simp add: n p fields)
  have 5: "fst (analyzeFromUpload ?rt \<lparr>req_file = Some ?f, body_features = JStr ''Tags, Bogus''\<rparr>) = []"
    using feature_field_parsing [OF ne(2), of _ "[JStr ''Tags'', JStr ''Bogus'']"
        "\<lparr>req_file = Some ?f, body_features = JStr ''Tags, Bogus''\<rparr>" ?f ?rt,
        THEN conjunct2, THEN conjunct2, THEN conjunct2,
        THEN conjunct1] 3 bad file_fine
    by (simp add: n)
  from 1 2 4 5 show ?thesis by simp
qed

subsection \<open>Requests that fail validation\<close>

text \<open>
  A request that fails a check of \<open>analyzeFromUrl\<close> leads to no outbound call and to a
  failure envelope. The status is 400, except where the rejection of the feature names
  cannot be written because an offending element has no string form: then the handler's
  \<^verbatim>\<open>catch\<close> answers 500.
\<close>

lemma url_validation_failure:
  assumes "\<not> truthy (url req) \<or> \<not> validateImageUrl (new_URL rt) (url req)
      \<or> length_gt (url req) 2048
      \<or> (truthy (features req) \<and> \<not> isArray (features req))
      \<or> (\<exists>fs. features req = JArr fs \<and> invalidFeatures fs \<noteq> [])"
  shows "fst (analyzeFromUrl rt req) = []
     \<and> outcome_success (snd (analyzeFromUrl rt req)) = Some False
     \<and> (outcome_status (snd (analyzeFromUrl rt req)) = Some 400
        \<or> outcome_status (snd (analyzeFromUrl rt req)) = Some 500
          \<and> (\<exists>fs. features req = JArr fs \<and> join_js '', '' (invalidFeatures fs) = None))"
proof (cases "truthy (url req) \<and> validateImageUrl (new_URL rt) (url req) \<and> \<not> length_gt (url req) 2048")
  case False
  then obtain e d where "analyzeFromUrl rt req = ([], Responded (reject 400 e d))"
    using url_early_outcome [of req rt] by blast
  then show ?thesis by (simp add: reject_outcome)
next
  case True
  then have ok: "truthy (url req)" "validateImageUrl (new_URL rt) (url req)"
    "\<not> length_gt (url req) 2048" by simp_all
  from True assms consider
      (format) "truthy (features req)" "\<not> isArray (features req)"
    | (names) fs where "features req = JArr fs" "invalidFeatures fs \<noteq> []"
    by blast
  then show ?thesis
  proof cases
    case format
    then have "analyzeFromUrl rt req =
        ([], Responded (reject 400 ''Invalid features format''
               ''Features must be an array of strings''))"
      unfolding analyzeFromUrl_def url_checks_passed [OF ok]
      by (cases "features req") simp_all
    then show ?thesis by (simp add: reject_outcome)
  next
    case names
    show ?thesis
    proof (cases "join_js '', '' (invalidFeatures fs)")
      case None
      with names have "analyzeFromUrl rt req = ([], analyzeFromUrl_catch TypeError)"
        unfolding analyzeFromUrl_def url_checks_passed [OF ok]
        by (simp add: checkFeatureNames_def)
      with names None show ?thesis by (simp add: url_catch_TypeError reject_outcome)
    next
      case (Some printed)
      with names have "checkFeatureNames fs =
          Some (Inr (reject 400 ''Invalid feature names''
            (''Invalid features: '' @ printed @ ''. Valid features are: ''
               @ join '', '' validFeatures)))"
        by (simp add: checkFeatureNames_def)
      with names have "analyzeFromUrl rt req =
          ([], Responded (reject 400 ''Invalid feature names''
            (''Invalid features: '' @ printed @ ''. Valid features are: ''
               @ join '', '' validFeatures)))"
        unfolding analyzeFromUrl_def url_checks_passed [OF ok] by simp
      then show ?thesis by (simp add: reject_outcome)
    qed
  qed
qed

text \<open>The same for \<open>analyzeFromUpload\<close>, with a feature field that is one text.\<close>

lemma upload_validation_failure:
  assumes "body_features req = JStr s"
    and "\<not> (\<exists>f. req_file req = Some f \<and> file_ok f)
      \<or> s \<noteq> [] \<and> ((\<exists>v. JSON_parse rt s = Some v \<and> \<not> isArray v)
          \<or> (\<exists>fs. parseFeatures (JSON_parse rt) (JStr s) = Inr fs \<and> invalidFeatures fs \<noteq> []))"
  shows "fst (analyzeFromUpload rt req) = []
     \<and> outcome_success (snd (analyzeFromUpload rt req)) = Some False
     \<and> outcome_status (snd (analyzeFromUpload rt req)) \<in> {Some 400, Some 413, Some 415, Some 500}"
proof (cases "\<exists>f. req_file req = Some f \<and> file_ok f")
  case False
  then obtain st e d where "st \<in> {400, 413, 415}"
    "analyzeFromUpload rt req = ([], Responded (reject st e d))"
    using upload_file_rejected [of req rt] by blast
  then show ?thesis by (auto simp: reject_outcome)
next
  case True
  then obtain f where f: "req_file req = Some f" "file_ok f" by blast
  from True assms have t: "truthy (body_features req)" by auto
  from True assms(2) consider
      (format) v where "s \<noteq> []" "JSON_parse rt s = Some v" "\<not> isArray v"
    | (names) fs where "parseFeatures (JSON_parse rt) (JStr s) = Inr fs" "invalidFeatures fs \<noteq> []"
    by blast
  then show ?thesis
  proof cases
    case format
    then have "parseFeatures (JSON_parse rt) (body_features req) =
        Inl (Inr (reject 400 ''Invalid features format'' ''Features must be an array of strings''))"
      by (cases v) (simp_all add: parseFeatures_def assms(1))
    then have "analyzeFromUpload_try rt req =
        ([], Inr (reject 400 ''Invalid features format'' ''Features must be an array of strings''))"
      by (intro upload_stopped [OF f t]) simp
    then show ?thesis by (simp add: analyzeFromUpload_def reject_outcome)
  next
    case names
    with upload_invalid_names [OF f t, of rt fs] assms(1) show ?thesis by auto
  qed
qed

text \<open>
  C9 (the code at the failing input). The body
  \<^verbatim>\<open>{"url": "https://example.com/cat.jpg", "features": [{"toString": 1}]}\<close> fails the check of
  the feature names. No call is made, but the answer is 500, not one of the 4xx family:
  printing the offending element into the rejection throws, and the \<^verbatim>\<open>catch\<close> block takes
  over.
\<close>

theorem unprintable_feature_answered_500:
  "invalidFeatures [JObj [(''toString'', JNum ''1'')]] = [JObj [(''toString'', JNum ''1'')]]
   \<and> analyzeFromUrl (runtime_with sample_ok)
        \<lparr>url = JStr sample_url, features = JArr [JObj [(''toString'', JNum ''1'')]]\<rparr>
      = ([], Responded (reject 500 ''Failed to analyze image''
               ''An unexpected error occurred. Please try again later.''))"
proof -
  let ?req = "\<lparr>url = JStr sample_url, features = JArr [JObj [(''toString'', JNum ''1'')]]\<rparr>"
  have inv: "invalidFeatures [JObj [(''toString'', JNum ''1'')]] = [JObj [(''toString'', JNum ''1'')]]"
    by (auto simp: invalidFeatures_def)
  have ok: "truthy (url ?req)" "validateImageUrl (new_URL (runtime_with sample_ok)) (url ?req)"
    "\<not> length_gt (url ?req) 2048"
    by (simp_all add: sample_url_passes runtime_with_def)
  have "checkFeatureNames [JObj [(''toString'', JNum ''1'')]] = Some (Inl TypeError)"
    by (simp add: checkFeatureNames_def inv join_js_def)
  then have "analyzeFromUrl (runtime_with sample_ok) ?req = ([], analyzeFromUrl_catch TypeError)"
    unfolding analyzeFromUrl_def url_checks_passed [OF ok] by simp
  with inv show ?thesis by (simp add: url_catch_TypeError)
qed

subsection \<open>Feature sequences with elements of any kind\<close>

text \<open>
  What the handlers answer when the feature list holds an element outside the fixed set,
  whatever the elements are. The offending elements are printed into the rejection; the
  rejection is a 400 when all of them can be printed and is lost to the handler's
  \<^verbatim>\<open>catch\<close>, which answers 500, when one cannot.
\<close>

lemma url_unknown_elements:
  assumes "features req = JArr fs" and "invalidFeatures fs \<noteq> []"
  shows "fst (analyzeFromUrl rt req) = []
     \<and> outcome_success (snd (analyzeFromUrl rt req)) = Some False
     \<and> (truthy (url req) \<and> validateImageUrl (new_URL rt) (url req)
          \<and> \<not> length_gt (url req) 2048 \<longrightarrow>
        snd (analyzeFromUrl rt req) =
          (case join_js '', '' (invalidFeatures fs) of
             Some printed \<Rightarrow>
               Responded (reject 400 ''Invalid feature names''
                 (''Invalid features: '' @ printed @ ''. Valid features are: ''
                    @ join '', '' validFeatures))
           | None \<Rightarrow>
               Responded (reject 500 ''Failed to analyze image''
                 ''An unexpected error occurred. Please try again later.'')))"
proof -
  have general: "fst (analyzeFromUrl rt req) = []
      \<and> outcome_success (snd (analyzeFromUrl rt req)) = Some False"
    using url_validation_failure [of req rt] assms by blast
  have exact: "snd (analyzeFromUrl rt req) =
          (case join_js '', '' (invalidFeatures fs) of
             Some printed \<Rightarrow>
               Responded (reject 400 ''Invalid feature names''
                 (''Invalid features: '' @ printed @ ''. Valid features are: ''
                    @ join '', '' validFeatures))
           | None \<Rightarrow>
               Responded (reject 500 ''Failed to analyze image''
                 ''An unexpected error occurred. Please try again later.''))"
    if ok: "truthy (url req)" "validateImageUrl (new_URL rt) (url req)"
      "\<not> length_gt (url req) 2048"
  proof (cases "join_js '', '' (invalidFeatures fs)")
    case None
    with assms have "analyzeFromUrl rt req = ([], analyzeFromUrl_catch TypeError)"
      unfolding analyzeFromUrl_def url_checks_passed [OF ok]
      by (simp add: checkFeatureNames_def)
    with None show ?thesis by (simp add: url_catch_TypeError)
  next
    case (Some printed)
    with assms have "checkFeatureNames fs =
        Some (Inr (reject 400 ''Invalid feature names''
          (''Invalid features: '' @ printed @ ''. Valid features are: ''
             @ join '', '' validFeatures)))"
      by (simp add: checkFeatureNames_def)
    with assms have "analyzeFromUrl rt req =
        ([], Responded (reject 400 ''Invalid feature names''
          (''Invalid features: '' @ printed @ ''. Valid features are: ''
             @ join '', '' validFeatures)))"
      unfolding analyzeFromUrl_def url_checks_passed [OF ok] by simp
    with Some show ?thesis by simp
  qed
  from general exact show ?thesis by blast
qed

lemma upload_unknown_elements:
  assumes "req_file req = Some f" and "file_ok f" and "truthy (body_features req)"
    and "parseFeatures (JSON_parse rt) (body_features req) = Inr fs"
    and "invalidFeatures fs \<noteq> []"
  shows "analyzeFromUpload rt req =
     ([], case join_js '', '' (invalidFeatures fs) of
            Some printed \<Rightarrow>
              Responded (reject 400 ''Invalid feature names''
                (''Invalid features: '' @ printed @ ''. Valid features are: ''
                   @ join '', '' validFeatures))
          | None \<Rightarrow>
              Responded (reject 500 ''Failed to analyze uploaded image''
                ''An unexpected error occurred during image analysis.''))"
proof (cases "join_js '', '' (invalidFeatures fs)")
  case None
  with assms(5) have "checkFeatureNames fs = Some (Inl TypeError)"
    by (simp add: checkFeatureNames_def)
  with assms(4) have "analyzeFromUpload_try rt req = ([], Inl TypeError)"
    by (intro upload_stopped [OF assms(1-3)]) simp
  with None show ?thesis by (simp add: analyzeFromUpload_def upload_catch_TypeError)
next
  case (Some printed)
  with assms(5) have "checkFeatureNames fs =
      Some (Inr (reject 400 ''Invalid feature names''
        (''Invalid features: '' @ printed @ ''. Valid features are: ''
           @ join '', '' validFeatures)))"
    by (simp add: checkFeatureNames_def)
  with assms(4) have "analyzeFromUpload_try rt req =
      ([], Inr (reject 400 ''Invalid feature names''
        (''Invalid features: '' @ printed @ ''. Valid features are: ''
           @ join '', '' validFeatures)))"
    by (intro upload_stopped [OF assms(1-3)]) simp
  with Some show ?thesis by (simp add: analyzeFromUpload_def)
qed

text \<open>
  C7 (the code at the failing input). The body
  \<^verbatim>\<open>{"url": "https://example.com/cat.jpg", "features": ["Tags", {"toString": 1}]}\<close> holds one
  element outside the fixed set. No call is made, but the answer is the generic 500 and
  names neither the offending element nor the valid set. An offending element that can be
  printed is named: \<^verbatim>\<open>[7, "Tags"]\<close> and \<^verbatim>\<open>["Tags", "Foo", "Faces", "Bar"]\<close> are answered 400
  with the full enumeration.
\<close>

theorem unprintable_tag_not_enumerated:
  "invalidFeatures [JStr ''Tags'', JObj [(''toString'', JNum ''1'')]]
     = [JObj [(''toString'', JNum ''1'')]]
   \<and> analyzeFromUrl (runtime_with sample_ok)
        \<lparr>url = JStr sample_url,
         features = JArr [JStr ''Tags'', JObj [(''toString'', JNum ''1'')]]\<rparr>
      = ([], Responded (reject 500 ''Failed to analyze image''
               ''An unexpected error occurred. Please try again later.''))
   \<and> analyzeFromUrl (runtime_with sample_ok)
        \<lparr>url = JStr sample_url, features = JArr [JNum ''7'', JStr ''Tags'']\<rparr>
      = ([], Responded (reject 400 ''Invalid feature names''
               ''Invalid features: 7. Valid features are: Description, Tags, Objects, Color, ImageType, Faces, Adult, Brands, Categories''))
   \<and> analyzeFromUrl (runtime_with sample_ok)
        \<lparr>url = JStr sample_url,
         features = JArr [JStr ''Tags'', JStr ''Foo'', JStr ''Faces'', JStr ''Bar'']\<rparr>
      = ([], Responded (reject 400 ''Invalid feature names''
               ''Invalid features: Foo, Bar. Valid features are: Description, Tags, Objects, Color, ImageType, Faces, Adult, Brands, Categories''))"
proof -
  let ?rt = "runtime_with sample_ok"
  have ok: "truthy (url \<lparr>url = JStr sample_url, features = x\<rparr>)
      \<and> validateImageUrl (new_URL ?rt) (url \<lparr>url = JStr sample_url, features = x\<rparr>)
      \<and> \<not> length_gt (url \<lparr>url = JStr sample_url, features = x\<rparr>) 2048" for x
    by (simp add: sample_url_passes runtime_with_def)
  have valid: "join '', '' validFeatures =
      ''Description, Tags, Objects, Color, ImageType, Faces, Adult, Brands, Categories''"
    by (simp add: validFeatures_def)
  have i1: "invalidFeatures [JStr ''Tags'', JObj [(''toString'', JNum ''1'')]]
      = [JObj [(''toString'', JNum ''1'')]]"
    by (auto simp: invalidFeatures_def validFeatures_def)
  have i2: "invalidFeatures [JNum ''7'', JStr ''Tags''] = [JNum ''7'']"
    by (auto simp: invalidFeatures_def validFeatures_def)
  have i3: "invalidFeatures [JStr ''Tags'', JStr ''Foo'', JStr ''Faces'', JStr ''Bar'']
      = [JStr ''Foo'', JStr ''Bar'']"
    by (auto simp: invalidFeatures_def validFeatures_def)
  have j1: "join_js '', '' [JObj [(''toString'', JNum ''1'')]] = None"
    by (simp add: join_js_def)
  have j2: "join_js '', '' [JNum ''7''] = Some ''7''"
    by (simp add: join_js_def)
  have j3: "join_js '', '' [JStr ''Foo'', JStr ''Bar''] = Some ''Foo, Bar''"
    by (simp add: join_js_def)
  have 1: "analyzeFromUrl ?rt
        \<lparr>url = JStr sample_url,
         features = JArr [JStr ''Tags'', JObj [(''toString'', JNum ''1'')]]\<rparr>
      = ([], Responded (reject 500 ''Failed to analyze image''
               ''An unexpected error occurred. Please try again later.''))"
    using url_unknown_elements [of "\<lparr>url = JStr sample_url,
         features = JArr [JStr ''Tags'', JObj [(''toString'', JNum ''1'')]]\<rparr>"
        "[JStr ''Tags'', JObj [(''toString'', JNum ''1'')]]" ?rt] ok
    by (simp add: i1 j1 prod_eq_iff)
  have 2: "analyzeFromUrl ?rt
        \<lparr>url = JStr sample_url, features = JArr [JNum ''7'', JStr ''Tags'']\<rparr>
      = ([], Responded (reject 400 ''Invalid feature names''
               ''Invalid features: 7. Valid features are: Description, Tags, Objects, Color, ImageType, Faces, Adult, Brands, Categories''))"
    using url_unknown_elements [of "\<lparr>url = JStr sample_url,
         features = JArr [JNum ''7'', JStr ''Tags'']\<rparr>" "[JNum ''7'', JStr ''Tags'']" ?rt] ok
    by (simp add: i2 j2 valid prod_eq_iff)
  have 3: "analyzeFromUrl ?rt
        \<lparr>url = JStr sample_url,
         features = JArr [JStr ''Tags'', JStr ''Foo'', JStr ''Faces'', JStr ''Bar'']\<rparr>
      = ([], Responded (reject 400 ''Invalid feature names''
               ''Invalid features: Foo, Bar. Valid features are: Description, Tags, Objects, Color, ImageType, Faces, Adult, Brands, Categories''))"
    using url_unknown_elements [of "\<lparr>url = JStr sample_url,
         features = JArr [JStr ''Tags'', JStr ''Foo'', JStr ''Faces'', JStr ''Bar'']\<rparr>"
        "[JStr ''Tags'', JStr ''Foo'', JStr ''Faces'', JStr ''Bar'']" ?rt] ok
    by (simp add: i3 j3 valid prod_eq_iff)
  from i1 1 2 3 show ?thesis by blast
qed

end
